theory Spec2Isabelle
  imports Complex_Main
begin

section \<open>Common ground of the two pill splitters\<close>

text \<open>
  The repository holds two implementations of the pill splitter widget: a flat variant
  (every pill uniformly rounded, colours from a palette; \<^verbatim>\<open>splitPillsAt\<close>) and a
  corner-rounding variant (\<^verbatim>\<open>onSingleClick\<close>, \<^verbatim>\<open>splitPillPart\<close>,
  \<^verbatim>\<open>movePartAside\<close>, \<^verbatim>\<open>splitBorderRadius\<close>). Both are embedded here.

  A JavaScript \<^verbatim>\<open>number\<close> is modelled as a \<^typ>\<open>real\<close>. The two variants are first
  read with exact arithmetic, which is what the doubles compute on whole pixel
  coordinates; the splitting functions are then repeated with the rounding of every
  operation written out, for the one property that depends on it (the areas of the
  children).

  \<^verbatim>\<open>generateId()\<close> draws on \<^verbatim>\<open>Math.random\<close>. Its successive results are the
  sequence \<open>gen 0, gen 1, \<dots>\<close>; the number of calls made so far is threaded through
  every function that generates ids. The random colour of a freshly drawn pill is a
  parameter of the handler that draws it.
\<close>

type_synonym idgen = "nat \<Rightarrow> string"

record Point =
  pt_x :: real
  pt_y :: real

text \<open>What the handlers read off the container element: its bounding rectangle's
  origin and its client size. \<open>None\<close> is an unmounted \<^verbatim>\<open>containerRef.current\<close>.\<close>

record Container =
  rect_left :: real
  rect_top :: real
  clientWidth :: real
  clientHeight :: real

record MouseEvent =
  clientX :: real
  clientY :: real

datatype SplitLine = Vertical | Horizontal

section \<open>The flat variant\<close>

definition MIN_DRAW_SIZE :: real where
  "MIN_DRAW_SIZE = 40"

definition MIN_SPLIT_SIZE :: real where
  "MIN_SPLIT_SIZE = 20"

record Pill =
  pill_id :: string
  pill_x :: real
  pill_y :: real
  pill_w :: real
  pill_h :: real
  pill_color :: string

record DrawState =
  draw_sx :: real
  draw_sy :: real
  draw_ex :: real
  draw_ey :: real

record DragState =
  drag_id :: string
  drag_dx :: real
  drag_dy :: real

record ClickRef =
  click_x :: real
  click_y :: real
  click_time :: int
  click_id :: string

record FlatState =
  pills :: "Pill list"
  cursor :: Point
  drawState :: "DrawState option"
  dragState :: "DragState option"
  clickRef :: ClickRef
  nextId :: nat

definition getRelativePosition :: "Container option \<Rightarrow> MouseEvent \<Rightarrow> Point" where
  "getRelativePosition cont e =
     \<lparr>pt_x = clientX e - (case cont of None \<Rightarrow> 0 | Some c \<Rightarrow> rect_left c),
      pt_y = clientY e - (case cont of None \<Rightarrow> 0 | Some c \<Rightarrow> rect_top c)\<rparr>"

text \<open>The body of the \<^verbatim>\<open>flatMap\<close> in \<^verbatim>\<open>splitPillsAt\<close>: the pieces one pill is
  replaced by, and the id counter after the calls of \<^verbatim>\<open>generateId\<close> it made.\<close>

definition splitPill :: "idgen \<Rightarrow> real \<Rightarrow> real \<Rightarrow> nat \<Rightarrow> Pill \<Rightarrow> Pill list \<times> nat" where
  "splitPill gen splitX splitY n pill =
     (let withinX = (pill_x pill < splitX \<and> pill_x pill + pill_w pill > splitX);
          withinY = (pill_y pill < splitY \<and> pill_y pill + pill_h pill > splitY);
          leftWidth = splitX - pill_x pill;
          rightWidth = pill_x pill + pill_w pill - splitX;
          topHeight = splitY - pill_y pill;
          bottomHeight = pill_y pill + pill_h pill - splitY
      in
      if \<not> withinX \<and> \<not> withinY then ([pill], n)
      else if withinX \<and> leftWidth \<ge> MIN_SPLIT_SIZE \<and> rightWidth \<ge> MIN_SPLIT_SIZE then
        (if withinY \<and> topHeight \<ge> MIN_SPLIT_SIZE \<and> bottomHeight \<ge> MIN_SPLIT_SIZE then
           ([pill\<lparr>pill_id := gen n, pill_w := leftWidth, pill_h := topHeight\<rparr>,
             pill\<lparr>pill_id := gen (n + 1), pill_x := splitX, pill_w := rightWidth,
                  pill_h := topHeight\<rparr>,
             pill\<lparr>pill_id := gen (n + 2), pill_y := splitY, pill_w := leftWidth,
                  pill_h := bottomHeight\<rparr>,
             pill\<lparr>pill_id := gen (n + 3), pill_x := splitX, pill_y := splitY,
                  pill_w := rightWidth, pill_h := bottomHeight\<rparr>], n + 4)
         else
           ([pill\<lparr>pill_id := gen n, pill_w := leftWidth\<rparr>,
             pill\<lparr>pill_id := gen (n + 1), pill_x := splitX, pill_w := rightWidth\<rparr>], n + 2))
      else if withinY \<and> topHeight \<ge> MIN_SPLIT_SIZE \<and> bottomHeight \<ge> MIN_SPLIT_SIZE then
        ([pill\<lparr>pill_id := gen n, pill_h := topHeight\<rparr>,
          pill\<lparr>pill_id := gen (n + 1), pill_y := splitY, pill_h := bottomHeight\<rparr>], n + 2)
      else
        (let offsetX = (if withinX
                        then (if pill_x pill + pill_w pill / 2 < splitX
                              then splitX - pill_w pill - 2 else splitX + 2)
                        else pill_x pill);
             offsetY = (if withinY
                        then (if pill_y pill + pill_h pill / 2 < splitY
                              then splitY - pill_h pill - 2 else splitY + 2)
                        else pill_y pill)
         in ([pill\<lparr>pill_x := offsetX, pill_y := offsetY\<rparr>], n)))"

fun splitPillsAt :: "idgen \<Rightarrow> real \<Rightarrow> real \<Rightarrow> nat \<Rightarrow> Pill list \<Rightarrow> Pill list \<times> nat" where
  "splitPillsAt gen splitX splitY n [] = ([], n)"
| "splitPillsAt gen splitX splitY n (pill # rest) =
     (case splitPill gen splitX splitY n pill of
        (out, n') \<Rightarrow>
          (case splitPillsAt gen splitX splitY n' rest of
             (outs, n'') \<Rightarrow> (out @ outs, n'')))"

definition handleMouseMove :: "Container option \<Rightarrow> MouseEvent \<Rightarrow> FlatState \<Rightarrow> FlatState" where
  "handleMouseMove cont e st =
     (let p = getRelativePosition cont e;
          st1 = st\<lparr>cursor := p\<rparr>;
          st2 = (case drawState st of
                   None \<Rightarrow> st1
                 | Some d \<Rightarrow> st1\<lparr>drawState := Some (d\<lparr>draw_ex := pt_x p, draw_ey := pt_y p\<rparr>)\<rparr>)
      in case dragState st of
           None \<Rightarrow> st2
         | Some g \<Rightarrow>
             st2\<lparr>pills := map (\<lambda>pill. if pill_id pill = drag_id g
                                        then pill\<lparr>pill_x := pt_x p - drag_dx g,
                                                  pill_y := pt_y p - drag_dy g\<rparr>
                                        else pill) (pills st2)\<rparr>)"

definition hypot :: "real \<Rightarrow> real \<Rightarrow> real" where
  "hypot a b = sqrt (a\<^sup>2 + b\<^sup>2)"

definition applySplit :: "idgen \<Rightarrow> real \<Rightarrow> real \<Rightarrow> FlatState \<Rightarrow> FlatState" where
  "applySplit gen splitX splitY st =
     (case splitPillsAt gen splitX splitY (nextId st) (pills st) of
        (out, n') \<Rightarrow> st\<lparr>pills := out, nextId := n'\<rparr>)"

text \<open>\<^verbatim>\<open>handleMouseUp\<close>; \<open>col\<close> is what \<^verbatim>\<open>getRandomColor()\<close> returns and \<open>now\<close> what
  \<^verbatim>\<open>Date.now()\<close> returns. The queued state updates are applied in the order in which
  the handler issues them.\<close>

definition handleMouseUp ::
  "Container option \<Rightarrow> idgen \<Rightarrow> string \<Rightarrow> int \<Rightarrow> MouseEvent \<Rightarrow> FlatState \<Rightarrow> FlatState" where
  "handleMouseUp cont gen col now e st =
     (let p = getRelativePosition cont e;
          dist = hypot (pt_x p - click_x (clickRef st)) (pt_y p - click_y (clickRef st));
          duration = now - click_time (clickRef st);
          st1 = (case drawState st of
                   None \<Rightarrow> st
                 | Some d \<Rightarrow>
                     (let drawX = min (draw_sx d) (draw_ex d);
                          drawY = min (draw_sy d) (draw_ey d);
                          drawW = \<bar>draw_ex d - draw_sx d\<bar>;
                          drawH = \<bar>draw_ey d - draw_sy d\<bar>;
                          st' = (if drawW \<ge> MIN_DRAW_SIZE \<and> drawH \<ge> MIN_DRAW_SIZE
                                 then st\<lparr>pills := pills st @
                                            [\<lparr>pill_id = gen (nextId st), pill_x = drawX,
                                              pill_y = drawY, pill_w = drawW, pill_h = drawH,
                                              pill_color = col\<rparr>],
                                          nextId := nextId st + 1\<rparr>
                                 else st)
                      in st'\<lparr>drawState := None\<rparr>))
      in case dragState st of
           Some g \<Rightarrow>
             (let st2 = st1\<lparr>dragState := None\<rparr>
              in if dist < 4 \<and> duration < 300
                 then applySplit gen (pt_x p) (pt_y p) st2 else st2)
         | None \<Rightarrow>
             (if dist < 4 \<and> duration < 300
              then applySplit gen (pt_x p) (pt_y p) st1 else st1))"

section \<open>The corner-rounding variant\<close>

definition MIN_PILL_SIZE :: real where
  "MIN_PILL_SIZE = 40"

definition MIN_PART_SIZE :: real where
  "MIN_PART_SIZE = 20"

record BorderRadius =
  topLeft :: bool
  topRight :: bool
  bottomLeft :: bool
  bottomRight :: bool

record PillPart =
  part_id :: string
  part_x :: real
  part_y :: real
  part_width :: real
  part_height :: real
  part_color :: string
  borderRadius :: BorderRadius
  parentId :: "string option"

record DrawingRef =
  startX :: real
  startY :: real
  drawing :: bool

record DragRef =
  pillId :: string
  offsetX :: real
  offsetY :: real
  dragging :: bool

text \<open>The component's state: the \<^verbatim>\<open>pills\<close> and \<^verbatim>\<open>cursor\<close> of the source are the
  fields \<open>rpills\<close> and \<open>rcursor\<close> here (the flat variant has taken the plain names).\<close>

record RoundState =
  rpills :: "PillPart list"
  drawingRef :: "DrawingRef option"
  rcursor :: "Point option"
  dragRef :: "DragRef option"
  rnextId :: nat

definition allRounded :: BorderRadius where
  "allRounded = \<lparr>topLeft = True, topRight = True, bottomLeft = True, bottomRight = True\<rparr>"

definition drawingPill :: "real \<Rightarrow> real \<Rightarrow> real \<Rightarrow> real \<Rightarrow> PillPart" where
  "drawingPill l t wd ht =
     \<lparr>part_id = ''drawing'', part_x = l, part_y = t, part_width = wd, part_height = ht,
      part_color = ''rgba(0,0,0,0.2)'', borderRadius = allRounded, parentId = None\<rparr>"

definition splitBorderRadius :: "PillPart \<Rightarrow> SplitLine \<Rightarrow> BorderRadius \<times> BorderRadius" where
  "splitBorderRadius part splitLine =
     (case splitLine of
        Vertical \<Rightarrow>
          (\<lparr>topLeft = topLeft (borderRadius part), topRight = False,
            bottomLeft = bottomLeft (borderRadius part), bottomRight = False\<rparr>,
           \<lparr>topLeft = False, topRight = topRight (borderRadius part),
            bottomLeft = False, bottomRight = bottomRight (borderRadius part)\<rparr>)
      | Horizontal \<Rightarrow>
          (\<lparr>topLeft = topLeft (borderRadius part), topRight = topRight (borderRadius part),
            bottomLeft = False, bottomRight = False\<rparr>,
           \<lparr>topLeft = False, topRight = False,
            bottomLeft = bottomLeft (borderRadius part),
            bottomRight = bottomRight (borderRadius part)\<rparr>))"

fun findIndex :: "('a \<Rightarrow> bool) \<Rightarrow> 'a list \<Rightarrow> nat option" where
  "findIndex P [] = None"
| "findIndex P (x # xs) =
     (if P x then Some 0 else map_option Suc (findIndex P xs))"

definition onMouseMove :: "Container option \<Rightarrow> MouseEvent \<Rightarrow> RoundState \<Rightarrow> RoundState" where
  "onMouseMove cont e st =
     (case cont of
        None \<Rightarrow> st
      | Some c \<Rightarrow>
          (let x = clientX e - rect_left c;
               y = clientY e - rect_top c;
               st1 = st\<lparr>rcursor := Some \<lparr>pt_x = x, pt_y = y\<rparr>\<rparr>;
               st2 = (case drawingRef st of
                        None \<Rightarrow> st1
                      | Some d \<Rightarrow>
                          if drawing d then
                            (let newWidth = max \<bar>x - startX d\<bar> MIN_PILL_SIZE;
                                 newHeight = max \<bar>y - startY d\<bar> MIN_PILL_SIZE;
                                 left = min x (startX d);
                                 top = min y (startY d)
                             in st1\<lparr>rpills :=
                                      filter (\<lambda>p. part_id p \<noteq> ''drawing'') (rpills st1)
                                      @ [drawingPill left top newWidth newHeight]\<rparr>)
                          else st1)
           in case dragRef st of
                None \<Rightarrow> st2
              | Some g \<Rightarrow>
                  if dragging g then
                    (case findIndex (\<lambda>p. part_id p = pillId g) (rpills st) of
                       None \<Rightarrow> st2
                     | Some pillIndex \<Rightarrow>
                         (let pill = rpills st ! pillIndex;
                              rectWidth = clientWidth c;
                              rectHeight = clientHeight c;
                              newX = max 0 (min (x - offsetX g) (rectWidth - part_width pill));
                              newY = max 0 (min (y - offsetY g) (rectHeight - part_height pill))
                          in st2\<lparr>rpills :=
                                   (rpills st)[pillIndex := pill\<lparr>part_x := newX, part_y := newY\<rparr>]\<rparr>))
                  else st2))"

text \<open>\<^verbatim>\<open>onMouseDown\<close>; \<open>onPill\<close> says whether the event's target carries a
  \<^verbatim>\<open>data-pill-id\<close>.\<close>

definition onMouseDown ::
  "Container option \<Rightarrow> bool \<Rightarrow> MouseEvent \<Rightarrow> RoundState \<Rightarrow> RoundState" where
  "onMouseDown cont onPill e st =
     (if onPill then st
      else case cont of
             None \<Rightarrow> st
           | Some c \<Rightarrow>
               (let x = clientX e - rect_left c;
                    y = clientY e - rect_top c
                in st\<lparr>drawingRef := Some \<lparr>startX = x, startY = y, drawing = True\<rparr>,
                      rpills := rpills st @ [drawingPill x y MIN_PILL_SIZE MIN_PILL_SIZE]\<rparr>))"

text \<open>\<^verbatim>\<open>onMouseUp\<close>; \<open>col\<close> is what \<^verbatim>\<open>randomColor()\<close> returns.\<close>

definition onMouseUp :: "idgen \<Rightarrow> string \<Rightarrow> RoundState \<Rightarrow> RoundState" where
  "onMouseUp gen col st =
     (case drawingRef st of
        None \<Rightarrow> st
      | Some d \<Rightarrow>
          if \<not> drawing d then st
          else
            (let st1 =
                   (case find (\<lambda>p. part_id p = ''drawing'') (rpills st) of
                      None \<Rightarrow> st
                    | Some pill \<Rightarrow>
                        if part_width pill \<ge> MIN_PILL_SIZE \<and> part_height pill \<ge> MIN_PILL_SIZE
                        then
                          st\<lparr>rpills := filter (\<lambda>p. part_id p \<noteq> ''drawing'') (rpills st)
                                         @ [pill\<lparr>part_id := gen (rnextId st), part_color := col,
                                                  borderRadius := allRounded\<rparr>],
                             rnextId := rnextId st + 1\<rparr>
                        else
                          st\<lparr>rpills := filter (\<lambda>p. part_id p \<noteq> ''drawing'') (rpills st)\<rparr>)
             in st1\<lparr>drawingRef := None\<rparr>))"

definition splitPillPart ::
  "idgen \<Rightarrow> nat \<Rightarrow> PillPart \<Rightarrow> SplitLine \<Rightarrow> real \<Rightarrow> PillPart list \<times> nat" where
  "splitPillPart gen n part splitLine splitAt =
     (case splitLine of
        Vertical \<Rightarrow>
          if part_width part < 2 * MIN_PART_SIZE
             \<or> splitAt \<le> part_x part + MIN_PART_SIZE
             \<or> splitAt \<ge> part_x part + part_width part - MIN_PART_SIZE
          then ([part], n)
          else
            (let leftWidth = splitAt - part_x part;
                 rightWidth = part_width part - leftWidth;
                 radii = splitBorderRadius part Vertical;
                 leftPart = part\<lparr>part_id := gen n, part_width := leftWidth,
                                 borderRadius := fst radii\<rparr>;
                 rightPart = part\<lparr>part_id := gen (n + 1), part_x := splitAt,
                                  part_width := rightWidth, borderRadius := snd radii\<rparr>
             in ([leftPart, rightPart], n + 2))
      | Horizontal \<Rightarrow>
          if part_height part < 2 * MIN_PART_SIZE
             \<or> splitAt \<le> part_y part + MIN_PART_SIZE
             \<or> splitAt \<ge> part_y part + part_height part - MIN_PART_SIZE
          then ([part], n)
          else
            (let topHeight = splitAt - part_y part;
                 bottomHeight = part_height part - topHeight;
                 radii = splitBorderRadius part Horizontal;
                 topPart = part\<lparr>part_id := gen n, part_height := topHeight,
                                borderRadius := fst radii\<rparr>;
                 bottomPart = part\<lparr>part_id := gen (n + 1), part_y := splitAt,
                                   part_height := bottomHeight, borderRadius := snd radii\<rparr>
             in ([topPart, bottomPart], n + 2)))"

definition movePartAside :: "Container option \<Rightarrow> PillPart \<Rightarrow> SplitLine \<Rightarrow> real \<Rightarrow> PillPart" where
  "movePartAside cont part splitLine splitAt =
     (case splitLine of
        Vertical \<Rightarrow>
          (let center = part_x part + part_width part / 2
           in if center < splitAt
              then (let newX = min (part_x part) (splitAt - part_width part)
                    in part\<lparr>part_x := max 0 newX\<rparr>)
              else part\<lparr>part_x :=
                          min splitAt
                            ((case cont of None \<Rightarrow> 1000 | Some c \<Rightarrow> clientWidth c)
                             - part_width part)\<rparr>)
      | Horizontal \<Rightarrow>
          (let center = part_y part + part_height part / 2
           in if center < splitAt
              then (let newY = min (part_y part) (splitAt - part_height part)
                    in part\<lparr>part_y := max 0 newY\<rparr>)
              else part\<lparr>part_y :=
                          min splitAt
                            ((case cont of None \<Rightarrow> 1000 | Some c \<Rightarrow> clientHeight c)
                             - part_height part)\<rparr>))"

text \<open>The inner loop of \<^verbatim>\<open>onSingleClick\<close> over the parts of a vertical split: each
  is split horizontally, or moved aside when it cannot be.\<close>

fun splitEachHorizontally ::
  "Container option \<Rightarrow> idgen \<Rightarrow> real \<Rightarrow> nat \<Rightarrow> PillPart list \<Rightarrow> PillPart list \<times> nat" where
  "splitEachHorizontally cont gen splitY n [] = ([], n)"
| "splitEachHorizontally cont gen splitY n (partV # rest) =
     (case splitPillPart gen n partV Horizontal splitY of
        (horizontalSplits, n') \<Rightarrow>
          (case splitEachHorizontally cont gen splitY n' rest of
             (outs, n'') \<Rightarrow>
               ((if length horizontalSplits = 1
                 then [movePartAside cont partV Horizontal splitY]
                 else horizontalSplits) @ outs, n'')))"

text \<open>The body of the loop of \<^verbatim>\<open>onSingleClick\<close> for one pill: what is pushed onto
  \<^verbatim>\<open>newPills\<close>, whether \<^verbatim>\<open>changed\<close> is set, and the id counter afterwards.\<close>

definition clickPill ::
  "Container option \<Rightarrow> idgen \<Rightarrow> real \<Rightarrow> real \<Rightarrow> nat \<Rightarrow> PillPart
     \<Rightarrow> PillPart list \<times> bool \<times> nat" where
  "clickPill cont gen splitX splitY n pill =
     (if part_id pill = ''drawing'' then ([pill], False, n)
      else
        (let intersectsVertically =
               (part_x pill < splitX \<and> part_x pill + part_width pill > splitX);
             intersectsHorizontally =
               (part_y pill < splitY \<and> part_y pill + part_height pill > splitY)
         in
         if intersectsVertically \<and> intersectsHorizontally then
           (case splitPillPart gen n pill Vertical splitX of
              (verticalSplits, n') \<Rightarrow>
                if length verticalSplits = 1
                then ([movePartAside cont pill Vertical splitX], True, n')
                else (case splitEachHorizontally cont gen splitY n' verticalSplits of
                        (out, n'') \<Rightarrow> (out, True, n'')))
         else if intersectsVertically then
           (case splitPillPart gen n pill Vertical splitX of
              (verticalSplits, n') \<Rightarrow>
                if length verticalSplits = 1
                then ([movePartAside cont pill Vertical splitX], True, n')
                else (verticalSplits, True, n'))
         else if intersectsHorizontally then
           (case splitPillPart gen n pill Horizontal splitY of
              (horizontalSplits, n') \<Rightarrow>
                if length horizontalSplits = 1
                then ([movePartAside cont pill Horizontal splitY], True, n')
                else (horizontalSplits, True, n'))
         else ([pill], False, n)))"

fun clickPills ::
  "Container option \<Rightarrow> idgen \<Rightarrow> real \<Rightarrow> real \<Rightarrow> nat \<Rightarrow> PillPart list
     \<Rightarrow> PillPart list \<times> bool \<times> nat" where
  "clickPills cont gen splitX splitY n [] = ([], False, n)"
| "clickPills cont gen splitX splitY n (pill # rest) =
     (case clickPill cont gen splitX splitY n pill of
        (out, changed, n') \<Rightarrow>
          (case clickPills cont gen splitX splitY n' rest of
             (outs, changed', n'') \<Rightarrow> (out @ outs, changed \<or> changed', n'')))"

definition onSingleClick :: "Container option \<Rightarrow> idgen \<Rightarrow> RoundState \<Rightarrow> RoundState" where
  "onSingleClick cont gen st =
     (if (case drawingRef st of None \<Rightarrow> False | Some d \<Rightarrow> drawing d) then st
      else if (case dragRef st of None \<Rightarrow> False | Some g \<Rightarrow> dragging g) then st
      else case rcursor st of
             None \<Rightarrow> st
           | Some c \<Rightarrow>
               (case clickPills cont gen (pt_x c) (pt_y c) (rnextId st) (rpills st) of
                  (newPills, changed, n') \<Rightarrow>
                    if changed then st\<lparr>rpills := newPills, rnextId := n'\<rparr>
                    else st\<lparr>rnextId := n'\<rparr>))"

definition onDragStart ::
  "Container option \<Rightarrow> MouseEvent \<Rightarrow> string \<Rightarrow> real \<Rightarrow> real \<Rightarrow> RoundState \<Rightarrow> RoundState" where
  "onDragStart cont e pid pillX pillY st =
     (case cont of
        None \<Rightarrow> st
      | Some c \<Rightarrow>
          st\<lparr>dragRef := Some \<lparr>pillId = pid,
                               offsetX = clientX e - rect_left c - pillX,
                               offsetY = clientY e - rect_top c - pillY,
                               dragging = True\<rparr>\<rparr>)"

definition onDragEnd :: "RoundState \<Rightarrow> RoundState" where
  "onDragEnd st = st\<lparr>dragRef := None\<rparr>"

section \<open>Vocabulary of the properties\<close>

text \<open>The tests that \<^verbatim>\<open>splitPillsAt\<close> computes for a pill, by name: whether the
  split line crosses it strictly, and whether both sides of the cut reach
  \<^verbatim>\<open>MIN_SPLIT_SIZE\<close>.\<close>

definition withinX :: "real \<Rightarrow> Pill \<Rightarrow> bool" where
  "withinX splitX pill = (pill_x pill < splitX \<and> pill_x pill + pill_w pill > splitX)"

definition withinY :: "real \<Rightarrow> Pill \<Rightarrow> bool" where
  "withinY splitY pill = (pill_y pill < splitY \<and> pill_y pill + pill_h pill > splitY)"

definition splittableX :: "real \<Rightarrow> Pill \<Rightarrow> bool" where
  "splittableX splitX pill =
     (splitX - pill_x pill \<ge> MIN_SPLIT_SIZE
      \<and> pill_x pill + pill_w pill - splitX \<ge> MIN_SPLIT_SIZE)"

definition splittableY :: "real \<Rightarrow> Pill \<Rightarrow> bool" where
  "splittableY splitY pill =
     (splitY - pill_y pill \<ge> MIN_SPLIT_SIZE
      \<and> pill_y pill + pill_h pill - splitY \<ge> MIN_SPLIT_SIZE)"

text \<open>The same for the corner-rounding variant: the two intersection tests of
  \<^verbatim>\<open>onSingleClick\<close>, and the test under which \<^verbatim>\<open>splitPillPart\<close> cuts.\<close>

definition intersectsVertically :: "real \<Rightarrow> PillPart \<Rightarrow> bool" where
  "intersectsVertically splitX pill =
     (part_x pill < splitX \<and> part_x pill + part_width pill > splitX)"

definition intersectsHorizontally :: "real \<Rightarrow> PillPart \<Rightarrow> bool" where
  "intersectsHorizontally splitY pill =
     (part_y pill < splitY \<and> part_y pill + part_height pill > splitY)"

definition canSplit :: "PillPart \<Rightarrow> SplitLine \<Rightarrow> real \<Rightarrow> bool" where
  "canSplit part splitLine splitAt =
     (case splitLine of
        Vertical \<Rightarrow>
          \<not> (part_width part < 2 * MIN_PART_SIZE
             \<or> splitAt \<le> part_x part + MIN_PART_SIZE
             \<or> splitAt \<ge> part_x part + part_width part - MIN_PART_SIZE)
      | Horizontal \<Rightarrow>
          \<not> (part_height part < 2 * MIN_PART_SIZE
             \<or> splitAt \<le> part_y part + MIN_PART_SIZE
             \<or> splitAt \<ge> part_y part + part_height part - MIN_PART_SIZE))"

definition pillArea :: "Pill \<Rightarrow> real" where
  "pillArea pill = pill_w pill * pill_h pill"

definition partArea :: "PillPart \<Rightarrow> real" where
  "partArea part = part_width part * part_height part"

text \<open>A concrete sequence of ids, pairwise distinct, to run the model on examples.\<close>

definition sampleIds :: idgen where
  "sampleIds k = ''id'' @ replicate k (CHR ''x'')"

section \<open>The arithmetic of the source: IEEE 754 doubles\<close>

text \<open>
  A JavaScript \<^verbatim>\<open>number\<close> is a binary64 double, and every \<^verbatim>\<open>+\<close>, \<^verbatim>\<open>-\<close> and
  \<^verbatim>\<open>/\<close> of the source rounds its exact result to the nearest double, ties to the even
  significand. \<open>fl\<close> is that rounding: a non-zero \<open>x\<close> with
  \<open>2 powi k \<le> \<bar>x\<bar> < 2 powi (k + 1)\<close> is rounded to a multiple of \<open>2 powi (k - 52)\<close>
  (of \<open>2 powi (- 1074)\<close> in the subnormal range). Results of magnitude \<open>2 powi 1024\<close>
  and more, which the source would turn into \<^verbatim>\<open>Infinity\<close>, are outside this model; no
  statement below reaches them. Comparisons do not round.

  The definitions of the two variants above read the arithmetic over the reals. The
  definitions that follow repeat the splitting functions with every operation rounded as
  the source rounds it; the two readings agree wherever no operation rounds.
\<close>

definition roundTiesToEven :: "real \<Rightarrow> int" where
  "roundTiesToEven x =
     (let f = \<lfloor>x\<rfloor> in
      if x - of_int f < 1 / 2 then f
      else if x - of_int f > 1 / 2 then f + 1
      else if even f then f else f + 1)"

definition ulpExponent :: "real \<Rightarrow> int" where
  "ulpExponent x = max (\<lfloor>log 2 \<bar>x\<bar>\<rfloor> - 52) (- 1074)"

definition fl :: "real \<Rightarrow> real" where
  "fl x = (if x = 0 then 0
           else of_int (roundTiesToEven (x / 2 powi ulpExponent x)) * 2 powi ulpExponent x)"

text \<open>\<^verbatim>\<open>splitPillsAt\<close> of the flat variant, its arithmetic in doubles.\<close>

definition splitPill_double :: "idgen \<Rightarrow> real \<Rightarrow> real \<Rightarrow> nat \<Rightarrow> Pill \<Rightarrow> Pill list \<times> nat" where
  "splitPill_double gen splitX splitY n pill =
     (let withinX = (pill_x pill < splitX \<and> fl (pill_x pill + pill_w pill) > splitX);
          withinY = (pill_y pill < splitY \<and> fl (pill_y pill + pill_h pill) > splitY);
          leftWidth = fl (splitX - pill_x pill);
          rightWidth = fl (fl (pill_x pill + pill_w pill) - splitX);
          topHeight = fl (splitY - pill_y pill);
          bottomHeight = fl (fl (pill_y pill + pill_h pill) - splitY)
      in
      if \<not> withinX \<and> \<not> withinY then ([pill], n)
      else if withinX \<and> leftWidth \<ge> MIN_SPLIT_SIZE \<and> rightWidth \<ge> MIN_SPLIT_SIZE then
        (if withinY \<and> topHeight \<ge> MIN_SPLIT_SIZE \<and> bottomHeight \<ge> MIN_SPLIT_SIZE then
           ([pill\<lparr>pill_id := gen n, pill_w := leftWidth, pill_h := topHeight\<rparr>,
             pill\<lparr>pill_id := gen (n + 1), pill_x := splitX, pill_w := rightWidth,
                  pill_h := topHeight\<rparr>,
             pill\<lparr>pill_id := gen (n + 2), pill_y := splitY, pill_w := leftWidth,
                  pill_h := bottomHeight\<rparr>,
             pill\<lparr>pill_id := gen (n + 3), pill_x := splitX, pill_y := splitY,
                  pill_w := rightWidth, pill_h := bottomHeight\<rparr>], n + 4)
         else
           ([pill\<lparr>pill_id := gen n, pill_w := leftWidth\<rparr>,
             pill\<lparr>pill_id := gen (n + 1), pill_x := splitX, pill_w := rightWidth\<rparr>], n + 2))
      else if withinY \<and> topHeight \<ge> MIN_SPLIT_SIZE \<and> bottomHeight \<ge> MIN_SPLIT_SIZE then
        ([pill\<lparr>pill_id := gen n, pill_h := topHeight\<rparr>,
          pill\<lparr>pill_id := gen (n + 1), pill_y := splitY, pill_h := bottomHeight\<rparr>], n + 2)
      else
        (let offsetX = (if withinX
                        then (if fl (pill_x pill + fl (pill_w pill / 2)) < splitX
                              then fl (fl (splitX - pill_w pill) - 2) else fl (splitX + 2))
                        else pill_x pill);
             offsetY = (if withinY
                        then (if fl (pill_y pill + fl (pill_h pill / 2)) < splitY
                              then fl (fl (splitY - pill_h pill) - 2) else fl (splitY + 2))
                        else pill_y pill)
         in ([pill\<lparr>pill_x := offsetX, pill_y := offsetY\<rparr>], n)))"

text \<open>\<^verbatim>\<open>splitPillPart\<close>, \<^verbatim>\<open>movePartAside\<close> and the loop body of \<^verbatim>\<open>onSingleClick\<close>
  of the corner-rounding variant, their arithmetic in doubles.\<close>

definition splitPillPart_double ::
  "idgen \<Rightarrow> nat \<Rightarrow> PillPart \<Rightarrow> SplitLine \<Rightarrow> real \<Rightarrow> PillPart list \<times> nat" where
  "splitPillPart_double gen n part splitLine splitAt =
     (case splitLine of
        Vertical \<Rightarrow>
          if part_width part < fl (2 * MIN_PART_SIZE)
             \<or> splitAt \<le> fl (part_x part + MIN_PART_SIZE)
             \<or> splitAt \<ge> fl (fl (part_x part + part_width part) - MIN_PART_SIZE)
          then ([part], n)
          else
            (let leftWidth = fl (splitAt - part_x part);
                 rightWidth = fl (part_width part - leftWidth);
                 radii = splitBorderRadius part Vertical;
                 leftPart = part\<lparr>part_id := gen n, part_width := leftWidth,
                                 borderRadius := fst radii\<rparr>;
                 rightPart = part\<lparr>part_id := gen (n + 1), part_x := splitAt,
                                  part_width := rightWidth, borderRadius := snd radii\<rparr>
             in ([leftPart, rightPart], n + 2))
      | Horizontal \<Rightarrow>
          if part_height part < fl (2 * MIN_PART_SIZE)
             \<or> splitAt \<le> fl (part_y part + MIN_PART_SIZE)
             \<or> splitAt \<ge> fl (fl (part_y part + part_height part) - MIN_PART_SIZE)
          then ([part], n)
          else
            (let topHeight = fl (splitAt - part_y part);
                 bottomHeight = fl (part_height part - topHeight);
                 radii = splitBorderRadius part Horizontal;
                 topPart = part\<lparr>part_id := gen n, part_height := topHeight,
                                borderRadius := fst radii\<rparr>;
                 bottomPart = part\<lparr>part_id := gen (n + 1), part_y := splitAt,
                                   part_height := bottomHeight, borderRadius := snd radii\<rparr>
             in ([topPart, bottomPart], n + 2)))"

definition movePartAside_double ::
  "Container option \<Rightarrow> PillPart \<Rightarrow> SplitLine \<Rightarrow> real \<Rightarrow> PillPart" where
  "movePartAside_double cont part splitLine splitAt =
     (case splitLine of
        Vertical \<Rightarrow>
          (let center = fl (part_x part + fl (part_width part / 2))
           in if center < splitAt
              then (let newX = min (part_x part) (fl (splitAt - part_width part))
                    in part\<lparr>part_x := max 0 newX\<rparr>)
              else part\<lparr>part_x :=
                          min splitAt
                            (fl ((case cont of None \<Rightarrow> 1000 | Some c \<Rightarrow> clientWidth c)
                                 - part_width part))\<rparr>)
      | Horizontal \<Rightarrow>
          (let center = fl (part_y part + fl (part_height part / 2))
           in if center < splitAt
              then (let newY = min (part_y part) (fl (splitAt - part_height part))
                    in part\<lparr>part_y := max 0 newY\<rparr>)
              else part\<lparr>part_y :=
                          min splitAt
                            (fl ((case cont of None \<Rightarrow> 1000 | Some c \<Rightarrow> clientHeight c)
                                 - part_height part))\<rparr>))"

fun splitEachHorizontally_double ::
  "Container option \<Rightarrow> idgen \<Rightarrow> real \<Rightarrow> nat \<Rightarrow> PillPart list \<Rightarrow> PillPart list \<times> nat" where
  "splitEachHorizontally_double cont gen splitY n [] = ([], n)"
| "splitEachHorizontally_double cont gen splitY n (partV # rest) =
     (case splitPillPart_double gen n partV Horizontal splitY of
        (horizontalSplits, n') \<Rightarrow>
          (case splitEachHorizontally_double cont gen splitY n' rest of
             (outs, n'') \<Rightarrow>
               ((if length horizontalSplits = 1
                 then [movePartAside_double cont partV Horizontal splitY]
                 else horizontalSplits) @ outs, n'')))"

definition clickPill_double ::
  "Container option \<Rightarrow> idgen \<Rightarrow> real \<Rightarrow> real \<Rightarrow> nat \<Rightarrow> PillPart
     \<Rightarrow> PillPart list \<times> bool \<times> nat" where
  "clickPill_double cont gen splitX splitY n pill =
     (if part_id pill = ''drawing'' then ([pill], False, n)
      else
        (let intersectsVertically =
               (part_x pill < splitX \<and> fl (part_x pill + part_width pill) > splitX);
             intersectsHorizontally =
               (part_y pill < splitY \<and> fl (part_y pill + part_height pill) > splitY)
         in
         if intersectsVertically \<and> intersectsHorizontally then
           (case splitPillPart_double gen n pill Vertical splitX of
              (verticalSplits, n') \<Rightarrow>
                if length verticalSplits = 1
                then ([movePartAside_double cont pill Vertical splitX], True, n')
                else (case splitEachHorizontally_double cont gen splitY n' verticalSplits of
                        (out, n'') \<Rightarrow> (out, True, n'')))
         else if intersectsVertically then
           (case splitPillPart_double gen n pill Vertical splitX of
              (verticalSplits, n') \<Rightarrow>
                if length verticalSplits = 1
                then ([movePartAside_double cont pill Vertical splitX], True, n')
                else (verticalSplits, True, n'))
         else if intersectsHorizontally then
           (case splitPillPart_double gen n pill Horizontal splitY of
              (horizontalSplits, n') \<Rightarrow>
                if length horizontalSplits = 1
                then ([movePartAside_double cont pill Horizontal splitY], True, n')
                else (horizontalSplits, True, n'))
         else ([pill], False, n)))"

text \<open>The ids that \<^verbatim>\<open>generateId\<close> returns when every call yields the same string.
  \<^verbatim>\<open>Math.random\<close> returning \<open>0.5\<close> at every call does so: \<^verbatim>\<open>(0.5).toString(36)\<close> is
  \<^verbatim>\<open>"0.i"\<close>, so that the corner-rounding variant's
  \<^verbatim>\<open>Math.random().toString(36).slice(2, 10)\<close> is \<^verbatim>\<open>"i"\<close> each time, and the flat
  variant's \<^verbatim>\<open>Math.random().toString(36).slice(2) + Date.now().toString(36)\<close> is
  \<^verbatim>\<open>"iloyw3v28"\<close> each time within the millisecond \<open>1700000000000\<close>.\<close>

definition repeatedId :: "string \<Rightarrow> idgen" where
  "repeatedId s k = s"

text \<open>A coordinate on which the double arithmetic of the splitting functions is exact: a
  whole number of pixels, of magnitude \<open>2 ^ 50\<close> at most.\<close>

definition exactCoordinate :: "real \<Rightarrow> bool" where
  "exactCoordinate v = (v \<in> \<int> \<and> \<bar>v\<bar> \<le> 2 ^ 50)"

section \<open>Basic facts\<close>

lemma inj_sampleIds: "inj sampleIds"
  by (simp add: inj_def sampleIds_def)

lemma splitPillsAt_append:
  "splitPillsAt gen sx sy n (xs @ ys) =
     (case splitPillsAt gen sx sy n xs of
        (a, n1) \<Rightarrow> (case splitPillsAt gen sx sy n1 ys of (b, n2) \<Rightarrow> (a @ b, n2)))"
  by (induction xs arbitrary: n) (auto split: prod.splits)

lemma clickPills_append:
  "clickPills cont gen sx sy n (xs @ ys) =
     (case clickPills cont gen sx sy n xs of
        (a, ch1, n1) \<Rightarrow>
          (case clickPills cont gen sx sy n1 ys of
             (b, ch2, n2) \<Rightarrow> (a @ b, ch1 \<or> ch2, n2)))"
  by (induction xs arbitrary: n) (auto split: prod.splits)

lemma splitPill_unchanged:
  "\<not> withinX sx p \<Longrightarrow> \<not> withinY sy p \<Longrightarrow> splitPill gen sx sy n p = ([p], n)"
  by (auto simp: splitPill_def withinX_def withinY_def Let_def)

lemma clickPill_unchanged:
  "\<not> intersectsVertically sx q \<Longrightarrow> \<not> intersectsHorizontally sy q \<Longrightarrow>
   clickPill cont gen sx sy n q = ([q], False, n)"
  by (auto simp: clickPill_def intersectsVertically_def intersectsHorizontally_def Let_def)

section \<open>Shapes the split lines do not cross\<close>

text \<open>
  Claim C8. A shape that the split point is strictly inside of on neither axis (a point on
  the shape's boundary included) is left as it is by the split, field for field: the
  piece of the output that stands for it is the shape itself, at its place in the list,
  and no id is generated for it. This holds in the flat variant (\<open>splitPill\<close>,
  \<open>splitPillsAt\<close>) and in the corner-rounding variant (\<open>clickPill\<close>, \<open>clickPills\<close>).
\<close>

theorem split_leaves_uncrossed_shape_unchanged:
  fixes p :: Pill and q :: PillPart
  assumes "\<not> withinX sx p" and "\<not> withinY sy p"
      and "\<not> intersectsVertically sx q" and "\<not> intersectsHorizontally sy q"
  shows "splitPill gen sx sy n p = ([p], n)
    \<and> splitPillsAt gen sx sy n (pre @ p # post) =
           (fst (splitPillsAt gen sx sy n pre) @ p #
              fst (splitPillsAt gen sx sy (snd (splitPillsAt gen sx sy n pre)) post),
            snd (splitPillsAt gen sx sy (snd (splitPillsAt gen sx sy n pre)) post))
    \<and> clickPill cont gen sx sy n q = ([q], False, n)
    \<and> fst (clickPills cont gen sx sy n (pre' @ q # post')) =
           fst (clickPills cont gen sx sy n pre') @ q #
             fst (clickPills cont gen sx sy (snd (snd (clickPills cont gen sx sy n pre'))) post')"
proof -
  have a: "splitPill gen sx sy k p = ([p], k)" for k
    using assms(1,2) by (rule splitPill_unchanged)
  have b: "clickPill cont gen sx sy k q = ([q], False, k)" for k
    using assms(3,4) by (rule clickPill_unchanged)
  have c: "splitPillsAt gen sx sy n (pre @ p # post) =
           (fst (splitPillsAt gen sx sy n pre) @ p #
              fst (splitPillsAt gen sx sy (snd (splitPillsAt gen sx sy n pre)) post),
            snd (splitPillsAt gen sx sy (snd (splitPillsAt gen sx sy n pre)) post))"
    by (simp add: splitPillsAt_append a split: prod.splits)
  have d: "fst (clickPills cont gen sx sy n (pre' @ q # post')) =
           fst (clickPills cont gen sx sy n pre') @ q #
             fst (clickPills cont gen sx sy (snd (snd (clickPills cont gen sx sy n pre'))) post')"
    by (simp add: clickPills_append b split: prod.splits)
  from a b c d show ?thesis by simp
qed

text \<open>The split point \<open>(100, 150)\<close> lies on the right edge of the shape's horizontal
  extent and below its vertical extent.\<close>

theorem split_leaves_uncrossed_shape_unchanged_witness:
  "splitPillsAt sampleIds 100 150 0
      [\<lparr>pill_id = ''a'', pill_x = 0, pill_y = 0, pill_w = 100, pill_h = 100,
        pill_color = ''#60a5fa''\<rparr>]
     = ([\<lparr>pill_id = ''a'', pill_x = 0, pill_y = 0, pill_w = 100, pill_h = 100,
          pill_color = ''#60a5fa''\<rparr>], 0)
   \<and> fst (clickPills None sampleIds 100 150 0
      [\<lparr>part_id = ''b'', part_x = 0, part_y = 0, part_width = 100, part_height = 100,
        part_color = ''hsl(10, 70%, 80%)'', borderRadius = allRounded, parentId = None\<rparr>])
     = [\<lparr>part_id = ''b'', part_x = 0, part_y = 0, part_width = 100, part_height = 100,
        part_color = ''hsl(10, 70%, 80%)'', borderRadius = allRounded, parentId = None\<rparr>]"
proof -
  let ?p = "\<lparr>pill_id = ''a'', pill_x = 0, pill_y = 0, pill_w = 100, pill_h = 100,
        pill_color = ''#60a5fa''\<rparr>"
  let ?q = "\<lparr>part_id = ''b'', part_x = 0, part_y = 0, part_width = 100, part_height = 100,
        part_color = ''hsl(10, 70%, 80%)'', borderRadius = allRounded, parentId = None\<rparr>"
  have h1: "\<not> withinX 100 ?p" by (simp add: withinX_def)
  have h2: "\<not> withinY 150 ?p" by (simp add: withinY_def)
  have h3: "\<not> intersectsVertically 100 ?q" by (simp add: intersectsVertically_def)
  have h4: "\<not> intersectsHorizontally 150 ?q" by (simp add: intersectsHorizontally_def)
  show ?thesis
    using split_leaves_uncrossed_shape_unchanged
      [OF h1 h2 h3 h4, of sampleIds 0 "[]" "[]" None "[]" "[]"]
    by simp
qed

section \<open>The quadrant split of the specification's example\<close>

text \<open>
  Claim C3, as stated: splitting the shape \<open>{x:0, y:0, width:100, height:100}\<close> at
  \<open>(40, 60)\<close> replaces it with the four children \<open>{0,0,40,60}\<close>, \<open>{40,0,60,60}\<close>,
  \<open>{0,60,40,40}\<close>, \<open>{40,60,60,40}\<close>, all of the parent's colour and with four distinct
  fresh ids. The ids come from \<^verbatim>\<open>generateId\<close>, which renders \<^verbatim>\<open>Math.random()\<close> and
  checks nothing: when the random source repeats itself, so do the ids. With every call
  returning the same string the four children share one id, in the corner-rounding
  variant the id of their parent.
\<close>

theorem quadrant_children_share_repeated_id:
  "map pill_id (fst (splitPillsAt (repeatedId ''iloyw3v28'') 40 60 0
       [\<lparr>pill_id = ''a'', pill_x = 0, pill_y = 0, pill_w = 100, pill_h = 100,
         pill_color = ''#34d399''\<rparr>]))
     = [''iloyw3v28'', ''iloyw3v28'', ''iloyw3v28'', ''iloyw3v28'']
   \<and> \<not> distinct (map pill_id (fst (splitPillsAt (repeatedId ''iloyw3v28'') 40 60 0
       [\<lparr>pill_id = ''a'', pill_x = 0, pill_y = 0, pill_w = 100, pill_h = 100,
         pill_color = ''#34d399''\<rparr>])))
   \<and> map part_id (fst (clickPills None (repeatedId ''i'') 40 60 0
       [\<lparr>part_id = ''i'', part_x = 0, part_y = 0, part_width = 100, part_height = 100,
         part_color = ''hsl(10, 70%, 80%)'', borderRadius = allRounded, parentId = None\<rparr>]))
     = [''i'', ''i'', ''i'', ''i'']
   \<and> \<not> distinct (map part_id (fst (clickPills None (repeatedId ''i'') 40 60 0
       [\<lparr>part_id = ''i'', part_x = 0, part_y = 0, part_width = 100, part_height = 100,
         part_color = ''hsl(10, 70%, 80%)'', borderRadius = allRounded,
         parentId = None\<rparr>])))"
  by (simp add: splitPill_def MIN_SPLIT_SIZE_def repeatedId_def clickPill_def
      splitPillPart_def MIN_PART_SIZE_def Let_def)

text \<open>
  Claim C3, amended. Splitting the shape \<open>{x:0, y:0, width:100, height:100}\<close> at the point
  \<open>(40, 60)\<close>, with the minimum splittable size 20 of the code, replaces it with exactly
  the four children \<open>{0,0,40,60}\<close>, \<open>{40,0,60,60}\<close>, \<open>{0,60,40,40}\<close> and
  \<open>{40,60,60,40}\<close> (position, size), each with the parent's colour and with the result
  of a call of \<^verbatim>\<open>generateId\<close> of its own for id: the four calls of the split in the
  flat variant, the third to the sixth of its six calls in the corner-rounding variant
  (which cuts vertically first). The four ids are distinct exactly when those four calls
  return distinct strings; the code does not compare them with one another or with the
  ids in the store. The flat variant lists the children row by row, the corner-rounding
  variant column by column.
\<close>

theorem quadrant_split_example:
  assumes "i \<noteq> ''drawing''"
  shows "splitPillsAt gen 40 60 n
       [\<lparr>pill_id = i, pill_x = 0, pill_y = 0, pill_w = 100, pill_h = 100, pill_color = c\<rparr>]
     = ([\<lparr>pill_id = gen n, pill_x = 0, pill_y = 0, pill_w = 40, pill_h = 60,
          pill_color = c\<rparr>,
         \<lparr>pill_id = gen (n + 1), pill_x = 40, pill_y = 0, pill_w = 60, pill_h = 60,
          pill_color = c\<rparr>,
         \<lparr>pill_id = gen (n + 2), pill_x = 0, pill_y = 60, pill_w = 40, pill_h = 40,
          pill_color = c\<rparr>,
         \<lparr>pill_id = gen (n + 3), pill_x = 40, pill_y = 60, pill_w = 60, pill_h = 40,
          pill_color = c\<rparr>],
        n + 4)
   \<and> distinct (map pill_id (fst (splitPillsAt gen 40 60 n
       [\<lparr>pill_id = i, pill_x = 0, pill_y = 0, pill_w = 100, pill_h = 100,
         pill_color = c\<rparr>])))
     = distinct [gen n, gen (n + 1), gen (n + 2), gen (n + 3)]
   \<and> clickPills cont gen 40 60 n
          [\<lparr>part_id = i, part_x = 0, part_y = 0, part_width = 100, part_height = 100,
            part_color = c, borderRadius = r, parentId = par\<rparr>]
     = ([\<lparr>part_id = gen (n + 2), part_x = 0, part_y = 0, part_width = 40, part_height = 60,
          part_color = c,
          borderRadius = \<lparr>topLeft = topLeft r, topRight = False, bottomLeft = False,
                           bottomRight = False\<rparr>,
          parentId = par\<rparr>,
         \<lparr>part_id = gen (n + 3), part_x = 0, part_y = 60, part_width = 40, part_height = 40,
          part_color = c,
          borderRadius = \<lparr>topLeft = False, topRight = False, bottomLeft = bottomLeft r,
                           bottomRight = False\<rparr>,
          parentId = par\<rparr>,
         \<lparr>part_id = gen (n + 4), part_x = 40, part_y = 0, part_width = 60, part_height = 60,
          part_color = c,
          borderRadius = \<lparr>topLeft = False, topRight = topRight r, bottomLeft = False,
                           bottomRight = False\<rparr>,
          parentId = par\<rparr>,
         \<lparr>part_id = gen (n + 5), part_x = 40, part_y = 60, part_width = 60, part_height = 40,
          part_color = c,
          borderRadius = \<lparr>topLeft = False, topRight = False, bottomLeft = False,
                           bottomRight = bottomRight r\<rparr>,
          parentId = par\<rparr>],
        True, n + 6)
   \<and> distinct (map part_id (fst (clickPills cont gen 40 60 n
          [\<lparr>part_id = i, part_x = 0, part_y = 0, part_width = 100, part_height = 100,
            part_color = c, borderRadius = r, parentId = par\<rparr>])))
     = distinct [gen (n + 2), gen (n + 3), gen (n + 4), gen (n + 5)]"
proof -
  have flat: "splitPillsAt gen 40 60 n
       [\<lparr>pill_id = i, pill_x = 0, pill_y = 0, pill_w = 100, pill_h = 100, pill_color = c\<rparr>]
     = ([\<lparr>pill_id = gen n, pill_x = 0, pill_y = 0, pill_w = 40, pill_h = 60,
          pill_color = c\<rparr>,
         \<lparr>pill_id = gen (n + 1), pill_x = 40, pill_y = 0, pill_w = 60, pill_h = 60,
          pill_color = c\<rparr>,
         \<lparr>pill_id = gen (n + 2), pill_x = 0, pill_y = 60, pill_w = 40, pill_h = 40,
          pill_color = c\<rparr>,
         \<lparr>pill_id = gen (n + 3), pill_x = 40, pill_y = 60, pill_w = 60, pill_h = 40,
          pill_color = c\<rparr>],
        n + 4)"
    by (simp add: splitPill_def MIN_SPLIT_SIZE_def)
  have round: "clickPills cont gen 40 60 n
          [\<lparr>part_id = i, part_x = 0, part_y = 0, part_width = 100, part_height = 100,
            part_color = c, borderRadius = r, parentId = par\<rparr>]
     = ([\<lparr>part_id = gen (n + 2), part_x = 0, part_y = 0, part_width = 40, part_height = 60,
          part_color = c,
          borderRadius = \<lparr>topLeft = topLeft r, topRight = False, bottomLeft = False,
                           bottomRight = False\<rparr>,
          parentId = par\<rparr>,
         \<lparr>part_id = gen (n + 3), part_x = 0, part_y = 60, part_width = 40, part_height = 40,
          part_color = c,
          borderRadius = \<lparr>topLeft = False, topRight = False, bottomLeft = bottomLeft r,
                           bottomRight = False\<rparr>,
          parentId = par\<rparr>,
         \<lparr>part_id = gen (n + 4), part_x = 40, part_y = 0, part_width = 60, part_height = 60,
          part_color = c,
          borderRadius = \<lparr>topLeft = False, topRight = topRight r, bottomLeft = False,
                           bottomRight = False\<rparr>,
          parentId = par\<rparr>,
         \<lparr>part_id = gen (n + 5), part_x = 40, part_y = 60, part_width = 60, part_height = 40,
          part_color = c,
          borderRadius = \<lparr>topLeft = False, topRight = False, bottomLeft = False,
                           bottomRight = bottomRight r\<rparr>,
          parentId = par\<rparr>],
        True, n + 6)"
    using assms
    by (simp add: clickPill_def splitPillPart_def splitBorderRadius_def MIN_PART_SIZE_def
        Let_def eval_nat_numeral)
  show ?thesis
    unfolding flat round by simp
qed

theorem quadrant_split_example_witness:
  "''a'' \<noteq> ''drawing''
   \<and> fst (splitPillsAt sampleIds 40 60 0
       [\<lparr>pill_id = ''a'', pill_x = 0, pill_y = 0, pill_w = 100, pill_h = 100,
         pill_color = ''#34d399''\<rparr>])
     = [\<lparr>pill_id = ''id'', pill_x = 0, pill_y = 0, pill_w = 40, pill_h = 60,
          pill_color = ''#34d399''\<rparr>,
         \<lparr>pill_id = ''idx'', pill_x = 40, pill_y = 0, pill_w = 60, pill_h = 60,
          pill_color = ''#34d399''\<rparr>,
         \<lparr>pill_id = ''idxx'', pill_x = 0, pill_y = 60, pill_w = 40, pill_h = 40,
          pill_color = ''#34d399''\<rparr>,
         \<lparr>pill_id = ''idxxx'', pill_x = 40, pill_y = 60, pill_w = 60, pill_h = 40,
          pill_color = ''#34d399''\<rparr>]
   \<and> map (\<lambda>q. (part_id q, part_x q, part_y q, part_width q, part_height q, part_color q))
        (fst (clickPills None sampleIds 40 60 0
          [\<lparr>part_id = ''a'', part_x = 0, part_y = 0, part_width = 100, part_height = 100,
            part_color = ''#34d399'', borderRadius = allRounded,
            parentId = None\<rparr>]))
     = [(''idxx'', 0, 0, 40, 60, ''#34d399''), (''idxxx'', 0, 60, 40, 40, ''#34d399''),
        (''idxxxx'', 40, 0, 60, 60, ''#34d399''), (''idxxxxx'', 40, 60, 60, 40, ''#34d399'')]
   \<and> fst (snd (clickPills None sampleIds 40 60 0
          [\<lparr>part_id = ''a'', part_x = 0, part_y = 0, part_width = 100, part_height = 100,
            part_color = ''#34d399'', borderRadius = allRounded,
            parentId = None\<rparr>]))"
proof -
  have h: "''a'' \<noteq> ''drawing''" by simp
  show ?thesis
    using quadrant_split_example [OF h, of sampleIds 0 "''#34d399''" None allRounded None]
    by (simp add: sampleIds_def eval_nat_numeral)
qed

lemma splitPill_cases:
  "splitPill gen sx sy n p =
     (if \<not> withinX sx p \<and> \<not> withinY sy p then ([p], n)
      else if withinX sx p \<and> splittableX sx p then
        (if withinY sy p \<and> splittableY sy p then
           ([p\<lparr>pill_id := gen n, pill_w := sx - pill_x p, pill_h := sy - pill_y p\<rparr>,
             p\<lparr>pill_id := gen (n + 1), pill_x := sx, pill_w := pill_x p + pill_w p - sx,
               pill_h := sy - pill_y p\<rparr>,
             p\<lparr>pill_id := gen (n + 2), pill_y := sy, pill_w := sx - pill_x p,
               pill_h := pill_y p + pill_h p - sy\<rparr>,
             p\<lparr>pill_id := gen (n + 3), pill_x := sx, pill_y := sy,
               pill_w := pill_x p + pill_w p - sx, pill_h := pill_y p + pill_h p - sy\<rparr>],
            n + 4)
         else
           ([p\<lparr>pill_id := gen n, pill_w := sx - pill_x p\<rparr>,
             p\<lparr>pill_id := gen (n + 1), pill_x := sx, pill_w := pill_x p + pill_w p - sx\<rparr>],
            n + 2))
      else if withinY sy p \<and> splittableY sy p then
        ([p\<lparr>pill_id := gen n, pill_h := sy - pill_y p\<rparr>,
          p\<lparr>pill_id := gen (n + 1), pill_y := sy, pill_h := pill_y p + pill_h p - sy\<rparr>],
         n + 2)
      else
        ([p\<lparr>pill_x := (if withinX sx p
                         then (if pill_x p + pill_w p / 2 < sx
                               then sx - pill_w p - 2 else sx + 2)
                         else pill_x p),
            pill_y := (if withinY sy p
                         then (if pill_y p + pill_h p / 2 < sy
                               then sy - pill_h p - 2 else sy + 2)
                         else pill_y p)\<rparr>], n))"
  unfolding splitPill_def withinX_def withinY_def splittableX_def splittableY_def Let_def
  by (rule refl)

lemma splitPillPart_cases:
  "splitPillPart gen n p l s =
     (if canSplit p l s then
        (case l of
           Vertical \<Rightarrow>
             ([p\<lparr>part_id := gen n, part_width := s - part_x p,
                  borderRadius := fst (splitBorderRadius p Vertical)\<rparr>,
               p\<lparr>part_id := gen (n + 1), part_x := s,
                  part_width := part_width p - (s - part_x p),
                  borderRadius := snd (splitBorderRadius p Vertical)\<rparr>], n + 2)
         | Horizontal \<Rightarrow>
             ([p\<lparr>part_id := gen n, part_height := s - part_y p,
                  borderRadius := fst (splitBorderRadius p Horizontal)\<rparr>,
               p\<lparr>part_id := gen (n + 1), part_y := s,
                  part_height := part_height p - (s - part_y p),
                  borderRadius := snd (splitBorderRadius p Horizontal)\<rparr>], n + 2))
      else ([p], n))"
  by (cases l) (simp_all add: splitPillPart_def canSplit_def Let_def)

lemma movePartAside_keeps:
  "part_id (movePartAside cont p l s) = part_id p"
  "part_width (movePartAside cont p l s) = part_width p"
  "part_height (movePartAside cont p l s) = part_height p"
  "part_color (movePartAside cont p l s) = part_color p"
  "borderRadius (movePartAside cont p l s) = borderRadius p"
  "parentId (movePartAside cont p l s) = parentId p"
  by (cases l; simp add: movePartAside_def Let_def)+

lemma movePartAside_area: "partArea (movePartAside cont p l s) = partArea p"
  by (simp add: partArea_def movePartAside_keeps)

lemma splitPillPart_area:
  "sum_list (map partArea (fst (splitPillPart gen n p l s))) = partArea p"
  by (cases l) (simp_all add: splitPillPart_cases partArea_def algebra_simps)

lemma splitEachHorizontally_area:
  "sum_list (map partArea (fst (splitEachHorizontally cont gen sy n ps))) =
     sum_list (map partArea ps)"
proof (induction ps arbitrary: n)
  case Nil
  show ?case by simp
next
  case (Cons a ps)
  obtain hs n' where hs: "splitPillPart gen n a Horizontal sy = (hs, n')"
    by (cases "splitPillPart gen n a Horizontal sy")
  have ar: "sum_list (map partArea hs) = partArea a"
    using splitPillPart_area [of gen n a Horizontal sy] by (simp add: hs)
  show ?case
    using Cons.IH [of n'] ar
    by (auto simp: hs movePartAside_area split: prod.splits)
qed

lemma clickPill_area:
  "sum_list (map partArea (fst (clickPill cont gen sx sy n p))) = partArea p"
proof -
  obtain vs n' where vs: "splitPillPart gen n p Vertical sx = (vs, n')"
    by (cases "splitPillPart gen n p Vertical sx")
  obtain hs m' where hs: "splitPillPart gen n p Horizontal sy = (hs, m')"
    by (cases "splitPillPart gen n p Horizontal sy")
  have av: "sum_list (map partArea vs) = partArea p"
    using splitPillPart_area [of gen n p Vertical sx] by (simp add: vs)
  have ah: "sum_list (map partArea hs) = partArea p"
    using splitPillPart_area [of gen n p Horizontal sy] by (simp add: hs)
  have ae: "sum_list (map partArea (fst (splitEachHorizontally cont gen sy n' vs))) = partArea p"
    using splitEachHorizontally_area [of cont gen sy n' vs] av by simp
  show ?thesis
    using av ah ae
    by (auto simp: clickPill_def Let_def vs hs movePartAside_area split: prod.splits)
qed

lemma clickPill_quadrant:
  assumes "part_id p \<noteq> ''drawing''" and "canSplit p Vertical sx" and "canSplit p Horizontal sy"
  shows "clickPill cont gen sx sy n p =
     ([p\<lparr>part_id := gen (n + 2), part_width := sx - part_x p,
          part_height := sy - part_y p,
          borderRadius := \<lparr>topLeft = topLeft (borderRadius p), topRight = False,
                            bottomLeft = False, bottomRight = False\<rparr>\<rparr>,
       p\<lparr>part_id := gen (n + 3), part_y := sy, part_width := sx - part_x p,
          part_height := part_height p - (sy - part_y p),
          borderRadius := \<lparr>topLeft = False, topRight = False,
                            bottomLeft = bottomLeft (borderRadius p), bottomRight = False\<rparr>\<rparr>,
       p\<lparr>part_id := gen (n + 4), part_x := sx, part_width := part_width p - (sx - part_x p),
          part_height := sy - part_y p,
          borderRadius := \<lparr>topLeft = False, topRight = topRight (borderRadius p),
                            bottomLeft = False, bottomRight = False\<rparr>\<rparr>,
       p\<lparr>part_id := gen (n + 5), part_x := sx, part_y := sy,
          part_width := part_width p - (sx - part_x p),
          part_height := part_height p - (sy - part_y p),
          borderRadius := \<lparr>topLeft = False, topRight = False, bottomLeft = False,
                            bottomRight = bottomRight (borderRadius p)\<rparr>\<rparr>],
      True, n + 6)"
proof -
  have iv: "part_x p < sx \<and> part_x p + part_width p > sx"
    using assms(2) by (simp add: canSplit_def MIN_PART_SIZE_def)
  have ih: "part_y p < sy \<and> part_y p + part_height p > sy"
    using assms(3) by (simp add: canSplit_def MIN_PART_SIZE_def)
  have cl: "canSplit (p\<lparr>part_id := a, part_width := b, borderRadius := c\<rparr>) Horizontal sy"
    for a b c using assms(3) by (simp add: canSplit_def)
  have cr: "canSplit (p\<lparr>part_id := a, part_x := d, part_width := b, borderRadius := c\<rparr>)
              Horizontal sy"
    for a b c d using assms(3) by (simp add: canSplit_def)
  show ?thesis
    using assms(1) iv ih
    by (simp add: clickPill_def Let_def splitPillPart_cases assms(2) cl cr
        splitBorderRadius_def eval_nat_numeral)
qed

lemma splitPill_single_iff:
  "length (fst (splitPill gen sx sy n p)) = 1 \<longleftrightarrow>
     \<not> (withinX sx p \<and> splittableX sx p) \<and> \<not> (withinY sy p \<and> splittableY sy p)"
  by (auto simp: splitPill_cases)

lemma splitPillPart_length:
  "length (fst (splitPillPart gen n p l s)) = (if canSplit p l s then 2 else 1)"
  by (cases l) (simp_all add: splitPillPart_cases)

lemma splitEachHorizontally_length:
  "length ps \<le> length (fst (splitEachHorizontally cont gen sy n ps))"
proof (induction ps arbitrary: n)
  case Nil
  show ?case by simp
next
  case (Cons a ps)
  obtain hs n' where hs: "splitPillPart gen n a Horizontal sy = (hs, n')"
    by (cases "splitPillPart gen n a Horizontal sy")
  show ?case
    using Cons.IH [of n'] splitPillPart_length [of gen n a Horizontal sy]
    by (auto simp: hs split: prod.splits if_splits)
qed

lemma clickPill_single:
  assumes "length (fst (clickPill cont gen sx sy n q)) = 1"
  shows "clickPill cont gen sx sy n q = ([q], False, n)
       \<or> clickPill cont gen sx sy n q = ([movePartAside cont q Vertical sx], True, n)
       \<or> clickPill cont gen sx sy n q = ([movePartAside cont q Horizontal sy], True, n)"
proof -
  have two: "length (fst (splitEachHorizontally cont gen sy m
               (fst (splitPillPart gen n q Vertical sx)))) \<noteq> 1"
    if "canSplit q Vertical sx" for m
    using splitEachHorizontally_length
      [of "fst (splitPillPart gen n q Vertical sx)" cont gen sy m] that
    by (simp add: splitPillPart_cases)
  show ?thesis
  proof (cases "canSplit q Vertical sx")
    case True
    then show ?thesis
      using assms two [OF True, of "n + 2"]
      by (cases "canSplit q Horizontal sy")
         (auto simp: clickPill_def Let_def splitPillPart_cases split: if_splits prod.splits)
  next
    case False
    then show ?thesis
      using assms
      by (cases "canSplit q Horizontal sy")
         (auto simp: clickPill_def Let_def splitPillPart_cases split: if_splits prod.splits)
  qed
qed

section \<open>Shapes that are not split keep their identity\<close>

text \<open>
  Claim C10. A shape that a split does not replace by children (the output holds one
  shape for it: the shape passed through, or the shape moved aside) keeps its id, its
  colour, its width and its height, and no id is generated for it; fresh ids go to the
  children of shapes that are split only. This holds in both variants.
\<close>

theorem unsplit_shape_keeps_identity:
  fixes p :: Pill and q :: PillPart
  assumes "length (fst (splitPill gen sx sy n p)) = 1"
      and "length (fst (clickPill cont gen sx sy n q)) = 1"
  shows "map (\<lambda>r. (pill_id r, pill_color r, pill_w r, pill_h r)) (fst (splitPill gen sx sy n p))
           = [(pill_id p, pill_color p, pill_w p, pill_h p)]
     \<and> snd (splitPill gen sx sy n p) = n
     \<and> map (\<lambda>r. (part_id r, part_color r, part_width r, part_height r))
           (fst (clickPill cont gen sx sy n q))
           = [(part_id q, part_color q, part_width q, part_height q)]
     \<and> snd (snd (clickPill cont gen sx sy n q)) = n"
proof -
  have flat: "\<not> (withinX sx p \<and> splittableX sx p) \<and> \<not> (withinY sy p \<and> splittableY sy p)"
    using assms(1) unfolding splitPill_single_iff .
  have a: "map (\<lambda>r. (pill_id r, pill_color r, pill_w r, pill_h r))
             (fst (splitPill gen sx sy n p))
           = [(pill_id p, pill_color p, pill_w p, pill_h p)]
     \<and> snd (splitPill gen sx sy n p) = n"
    using flat by (auto simp: splitPill_cases)
  have b: "map (\<lambda>r. (part_id r, part_color r, part_width r, part_height r))
           (fst (clickPill cont gen sx sy n q))
           = [(part_id q, part_color q, part_width q, part_height q)]
     \<and> snd (snd (clickPill cont gen sx sy n q)) = n"
    using clickPill_single [OF assms(2)] by (auto simp: movePartAside_keeps)
  from a b show ?thesis by simp
qed

text \<open>A pill 30 wide crossed by the vertical line at 10 is too narrow to split: the flat
  variant moves it to \<open>x = 12\<close>, the corner-rounding variant to \<open>x = 10\<close>.\<close>

theorem unsplit_shape_keeps_identity_witness:
  "splitPill sampleIds 10 200 5
       \<lparr>pill_id = ''a'', pill_x = 0, pill_y = 0, pill_w = 30, pill_h = 100,
        pill_color = ''#f87171''\<rparr>
     = ([\<lparr>pill_id = ''a'', pill_x = 12, pill_y = 0, pill_w = 30, pill_h = 100,
        pill_color = ''#f87171''\<rparr>], 5)
   \<and> clickPill None sampleIds 10 200 5
       \<lparr>part_id = ''b'', part_x = 0, part_y = 0, part_width = 30, part_height = 100,
        part_color = ''hsl(10, 70%, 80%)'', borderRadius = allRounded, parentId = None\<rparr>
     = ([\<lparr>part_id = ''b'', part_x = 10, part_y = 0, part_width = 30, part_height = 100,
        part_color = ''hsl(10, 70%, 80%)'', borderRadius = allRounded, parentId = None\<rparr>],
        True, 5)"
proof -
  let ?p = "\<lparr>pill_id = ''a'', pill_x = 0, pill_y = 0, pill_w = 30, pill_h = 100,
        pill_color = ''#f87171''\<rparr>"
  let ?q = "\<lparr>part_id = ''b'', part_x = 0, part_y = 0, part_width = 30, part_height = 100,
        part_color = ''hsl(10, 70%, 80%)'', borderRadius = allRounded, parentId = None\<rparr>"
  have e1: "splitPill sampleIds 10 200 5 ?p = ([?p\<lparr>pill_x := 12\<rparr>], 5)"
    by (simp add: splitPill_def MIN_SPLIT_SIZE_def)
  have e2: "clickPill None sampleIds 10 200 5 ?q = ([?q\<lparr>part_x := 10\<rparr>], True, 5)"
    by (simp add: clickPill_def splitPillPart_def movePartAside_def MIN_PART_SIZE_def Let_def)
  have h1: "length (fst (splitPill sampleIds 10 200 5 ?p)) = 1" by (simp add: e1)
  have h2: "length (fst (clickPill None sampleIds 10 200 5 ?q)) = 1" by (simp add: e2)
  show ?thesis
    using unsplit_shape_keeps_identity [OF h1 h2] e1 e2 by simp
qed

lemma flat_axis_split_iff_splittable:
  assumes "withinX sx p"
  shows "set (map pill_w (fst (splitPill gen sx sy n p))) =
           (if splittableX sx p then {sx - pill_x p, pill_x p + pill_w p - sx}
            else {pill_w p})"
  using assms by (auto simp: splitPill_cases)

lemma flat_axis_split_iff_splittable_Y:
  assumes "withinY sy p"
  shows "set (map pill_h (fst (splitPill gen sx sy n p))) =
           (if splittableY sy p then {sy - pill_y p, pill_y p + pill_h p - sy}
            else {pill_h p})"
  using assms by (auto simp: splitPill_cases)

lemma round_axis_split_iff_canSplit:
  assumes "part_id q \<noteq> ''drawing''" and "intersectsVertically sx q"
      and "\<not> intersectsHorizontally sy q"
  shows "map part_width (fst (clickPill cont gen sx sy n q)) =
           (if canSplit q Vertical sx
            then [sx - part_x q, part_width q - (sx - part_x q)]
            else [part_width q])"
  using assms
  by (auto simp: clickPill_def Let_def intersectsVertically_def intersectsHorizontally_def
      splitPillPart_cases movePartAside_keeps)

lemma canSplit_iff_strict:
  "canSplit q Vertical s \<longleftrightarrow>
     MIN_PART_SIZE < s - part_x q \<and> MIN_PART_SIZE < part_x q + part_width q - s"
  "canSplit q Horizontal s \<longleftrightarrow>
     MIN_PART_SIZE < s - part_y q \<and> MIN_PART_SIZE < part_y q + part_height q - s"
  by (auto simp: canSplit_def MIN_PART_SIZE_def)

section \<open>Splitting at exactly the minimum size\<close>

text \<open>
  Claim C2. An axis that the split point strictly crosses is split if and only if both
  child extents are at least the minimum splittable size; in particular a shape cut
  into two extents of exactly the minimum is split. The flat variant does so
  (\<open>flat_axis_split_iff_splittable\<close>). The corner-rounding variant does not:
  \<^verbatim>\<open>splitPillPart\<close> refuses the cut when \<^verbatim>\<open>splitAt <= part.x + MIN_PART_SIZE\<close> or
  \<^verbatim>\<open>splitAt >= part.x + part.width - MIN_PART_SIZE\<close>, so that it cuts only when both
  extents exceed the minimum (\<open>canSplit_iff_strict\<close>), although its own first guard
  and comment admit a width of exactly twice the minimum. A pill 40 wide crossed in its
  middle, at \<open>x = 20\<close>, is cut into two pills 20 wide by the flat variant and is moved
  aside, whole, by the corner-rounding variant.
\<close>

theorem exact_minimum_split_diverges:
  "splitPill sampleIds 20 200 0
       \<lparr>pill_id = ''a'', pill_x = 0, pill_y = 0, pill_w = 40, pill_h = 100,
        pill_color = ''#f87171''\<rparr>
     = ([\<lparr>pill_id = ''id'', pill_x = 0, pill_y = 0, pill_w = 20, pill_h = 100,
          pill_color = ''#f87171''\<rparr>,
         \<lparr>pill_id = ''idx'', pill_x = 20, pill_y = 0, pill_w = 20, pill_h = 100,
          pill_color = ''#f87171''\<rparr>], 2)
   \<and> clickPill None sampleIds 20 200 0
       \<lparr>part_id = ''b'', part_x = 0, part_y = 0, part_width = 40, part_height = 100,
        part_color = ''hsl(10, 70%, 80%)'', borderRadius = allRounded, parentId = None\<rparr>
     = ([\<lparr>part_id = ''b'', part_x = 20, part_y = 0, part_width = 40, part_height = 100,
          part_color = ''hsl(10, 70%, 80%)'', borderRadius = allRounded,
          parentId = None\<rparr>], True, 0)"
  by (simp add: splitPill_def MIN_SPLIT_SIZE_def sampleIds_def clickPill_def
      splitPillPart_def movePartAside_def MIN_PART_SIZE_def Let_def)

lemma flat_small_draw_discarded:
  assumes "drawState st = Some d"
      and "\<bar>draw_ex d - draw_sx d\<bar> < MIN_DRAW_SIZE \<or> \<bar>draw_ey d - draw_sy d\<bar> < MIN_DRAW_SIZE"
  shows "handleMouseUp cont gen col now e st =
           handleMouseUp cont gen col now e (st\<lparr>drawState := None\<rparr>)"
  using assms by (auto simp: handleMouseUp_def Let_def)

lemma flat_small_drag_leaves_pills:
  assumes "drawState st = Some d" and "dragState st = None"
      and "\<bar>draw_ex d - draw_sx d\<bar> < MIN_DRAW_SIZE \<or> \<bar>draw_ey d - draw_sy d\<bar> < MIN_DRAW_SIZE"
      and "\<not> (hypot (pt_x (getRelativePosition cont e) - click_x (clickRef st))
                   (pt_y (getRelativePosition cont e) - click_y (clickRef st)) < 4
             \<and> now - click_time (clickRef st) < 300)"
  shows "pills (handleMouseUp cont gen col now e st) = pills st"
  using assms by (auto simp: handleMouseUp_def Let_def)

lemma round_preview_never_small:
  assumes "drawingRef st = Some d" and "drawing d" and "dragRef st = None"
  shows "rpills (onMouseMove (Some c) e st) =
           filter (\<lambda>p. part_id p \<noteq> ''drawing'') (rpills st) @
             [drawingPill (min (clientX e - rect_left c) (startX d))
                (min (clientY e - rect_top c) (startY d))
                (max \<bar>clientX e - rect_left c - startX d\<bar> MIN_PILL_SIZE)
                (max \<bar>clientY e - rect_top c - startY d\<bar> MIN_PILL_SIZE)]
       \<and> MIN_PILL_SIZE \<le> part_width (last (rpills (onMouseMove (Some c) e st)))
       \<and> MIN_PILL_SIZE \<le> part_height (last (rpills (onMouseMove (Some c) e st)))"
  using assms by (simp add: onMouseMove_def Let_def drawingPill_def)

section \<open>Draw gestures below the minimum size\<close>

text \<open>
  Claim C5. A completed draw gesture whose rectangle is smaller than the minimum draw size
  in either dimension adds no shape to the store. The flat variant does so: its
  \<^verbatim>\<open>handleMouseUp\<close> tests the dragged rectangle (\<open>flat_small_draw_discarded\<close>). The
  corner-rounding variant does not: \<^verbatim>\<open>onMouseDown\<close> and \<^verbatim>\<open>onMouseMove\<close> raise the
  preview to \<^verbatim>\<open>MIN_PILL_SIZE\<close> with \<^verbatim>\<open>Math.max\<close> (\<open>round_preview_never_small\<close>), so
  the test of \<^verbatim>\<open>onMouseUp\<close> always succeeds and its branch that removes a preview that
  is too small is never taken. Pressing at \<open>(100, 100)\<close> on an empty store, dragging to
  \<open>(110, 105)\<close> and releasing, a gesture of 10 by 5 pixels, leaves a pill of 40 by 40.
\<close>

theorem small_draw_gesture_adds_shape:
  "rpills
     (onMouseUp sampleIds ''hsl(10, 70%, 80%)''
       (onMouseMove
          (Some \<lparr>rect_left = 0, rect_top = 0, clientWidth = 1000, clientHeight = 1000\<rparr>)
          \<lparr>clientX = 110, clientY = 105\<rparr>
          (onMouseDown
             (Some \<lparr>rect_left = 0, rect_top = 0, clientWidth = 1000, clientHeight = 1000\<rparr>)
             False \<lparr>clientX = 100, clientY = 100\<rparr>
             \<lparr>rpills = [], drawingRef = None, rcursor = None, dragRef = None,
              rnextId = 0\<rparr>)))
   = [\<lparr>part_id = ''id'', part_x = 100, part_y = 100, part_width = 40, part_height = 40,
       part_color = ''hsl(10, 70%, 80%)'', borderRadius = allRounded, parentId = None\<rparr>]"
  by (simp add: onMouseUp_def onMouseMove_def onMouseDown_def drawingPill_def
      MIN_PILL_SIZE_def sampleIds_def Let_def)

section \<open>Clamping of dragged shapes\<close>

text \<open>
  Claim C6, as stated: after every move, every shape lies within the container,
  \<open>[0, containerWidth - width] \<times> [0, containerHeight - height]\<close>, and no operation
  ever leaves a shape outside it. The flat variant has no clamp: \<^verbatim>\<open>handleMouseMove\<close>
  puts the dragged pill where the pointer asks. A pill 50 by 50 grabbed 45 pixels from
  its left edge and dragged to \<open>(10, 590)\<close> in a container of 800 by 600 lands at
  \<open>(-35, 585)\<close>, outside on the left and below.
\<close>

theorem flat_drag_leaves_container:
  "map (\<lambda>q. (pill_x q, pill_y q, pill_w q, pill_h q))
     (pills (handleMouseMove
        (Some \<lparr>rect_left = 0, rect_top = 0, clientWidth = 800, clientHeight = 600\<rparr>)
        \<lparr>clientX = 10, clientY = 590\<rparr>
        \<lparr>pills = [\<lparr>pill_id = ''a'', pill_x = 100, pill_y = 100, pill_w = 50, pill_h = 50,
                   pill_color = ''#60a5fa''\<rparr>],
         cursor = \<lparr>pt_x = 145, pt_y = 105\<rparr>,
         drawState = None,
         dragState = Some \<lparr>drag_id = ''a'', drag_dx = 45, drag_dy = 5\<rparr>,
         clickRef = \<lparr>click_x = 145, click_y = 105, click_time = 0, click_id = ''a''\<rparr>,
         nextId = 1\<rparr>))
   = [(- 35, 585, 50, 50)]
   \<and> \<not> (0 \<le> (- 35 :: real))
   \<and> \<not> (585 \<le> (600 - 50 :: real))"
  by (simp add: handleMouseMove_def getRelativePosition_def Let_def)

text \<open>
  Claim C6, amended. In the corner-rounding variant every drag move puts the dragged shape
  at \<open>max 0 (min requested (container - extent))\<close> on each axis and leaves its size and
  every other shape as they are; the shape then lies within
  \<open>[0, containerWidth - width] \<times> [0, containerHeight - height]\<close> whenever it is no larger
  than the container. The flat variant moves the dragged shape to the requested position
  without clamping.
\<close>

theorem drag_move_clamps_in_rounding_variant:
  assumes "dragRef st = Some g" and "dragging g"
      and "findIndex (\<lambda>p. part_id p = pillId g) (rpills st) = Some i"
      and "part_width (rpills st ! i) \<le> clientWidth c"
      and "part_height (rpills st ! i) \<le> clientHeight c"
      and "dragState fs = Some fg"
  shows "rpills (onMouseMove (Some c) e st) =
           (rpills st)[i := (rpills st ! i)
              \<lparr>part_x := max 0 (min (clientX e - rect_left c - offsetX g)
                                   (clientWidth c - part_width (rpills st ! i))),
               part_y := max 0 (min (clientY e - rect_top c - offsetY g)
                                   (clientHeight c - part_height (rpills st ! i)))\<rparr>]
     \<and> 0 \<le> max 0 (min (clientX e - rect_left c - offsetX g)
                      (clientWidth c - part_width (rpills st ! i)))
     \<and> max 0 (min (clientX e - rect_left c - offsetX g)
                 (clientWidth c - part_width (rpills st ! i)))
         \<le> clientWidth c - part_width (rpills st ! i)
     \<and> 0 \<le> max 0 (min (clientY e - rect_top c - offsetY g)
                      (clientHeight c - part_height (rpills st ! i)))
     \<and> max 0 (min (clientY e - rect_top c - offsetY g)
                 (clientHeight c - part_height (rpills st ! i)))
         \<le> clientHeight c - part_height (rpills st ! i)
     \<and> pills (handleMouseMove cont e fs) =
         map (\<lambda>pill. if pill_id pill = drag_id fg
                      then pill\<lparr>pill_x := pt_x (getRelativePosition cont e) - drag_dx fg,
                                pill_y := pt_y (getRelativePosition cont e) - drag_dy fg\<rparr>
                      else pill) (pills fs)"
proof -
  have a: "rpills (onMouseMove (Some c) e st) =
           (rpills st)[i := (rpills st ! i)
              \<lparr>part_x := max 0 (min (clientX e - rect_left c - offsetX g)
                                   (clientWidth c - part_width (rpills st ! i))),
               part_y := max 0 (min (clientY e - rect_top c - offsetY g)
                                   (clientHeight c - part_height (rpills st ! i)))\<rparr>]"
    using assms(1-3) by (simp add: onMouseMove_def Let_def split: option.splits)
  have b: "pills (handleMouseMove cont e fs) =
         map (\<lambda>pill. if pill_id pill = drag_id fg
                      then pill\<lparr>pill_x := pt_x (getRelativePosition cont e) - drag_dx fg,
                                pill_y := pt_y (getRelativePosition cont e) - drag_dy fg\<rparr>
                      else pill) (pills fs)"
    using assms(6) by (simp add: handleMouseMove_def Let_def split: option.splits)
  from a b assms(4,5) show ?thesis by simp
qed

theorem drag_move_clamps_in_rounding_variant_witness:
  "rpills (onMouseMove
       (Some \<lparr>rect_left = 0, rect_top = 0, clientWidth = 800, clientHeight = 600\<rparr>)
       \<lparr>clientX = 10, clientY = 590\<rparr>
       \<lparr>rpills = [\<lparr>part_id = ''b'', part_x = 100, part_y = 100, part_width = 50,
                    part_height = 50, part_color = ''hsl(10, 70%, 80%)'',
                    borderRadius = allRounded, parentId = None\<rparr>],
        drawingRef = None, rcursor = None,
        dragRef = Some \<lparr>pillId = ''b'', offsetX = 45, offsetY = 5, dragging = True\<rparr>,
        rnextId = 1\<rparr>)
   = [\<lparr>part_id = ''b'', part_x = 0, part_y = 550, part_width = 50,
       part_height = 50, part_color = ''hsl(10, 70%, 80%)'',
       borderRadius = allRounded, parentId = None\<rparr>]"
proof -
  let ?c = "\<lparr>rect_left = 0, rect_top = 0, clientWidth = 800, clientHeight = 600\<rparr>"
  let ?g = "\<lparr>pillId = ''b'', offsetX = 45, offsetY = 5, dragging = True\<rparr>"
  let ?st = "\<lparr>rpills = [\<lparr>part_id = ''b'', part_x = 100, part_y = 100, part_width = 50,
                    part_height = 50, part_color = ''hsl(10, 70%, 80%)'',
                    borderRadius = allRounded, parentId = None\<rparr>],
        drawingRef = None, rcursor = None, dragRef = Some ?g, rnextId = 1\<rparr>"
  let ?fg = "\<lparr>drag_id = ''a'', drag_dx = 45, drag_dy = 5\<rparr>"
  let ?fs = "\<lparr>pills = [], cursor = \<lparr>pt_x = 0, pt_y = 0\<rparr>, drawState = None,
              dragState = Some ?fg,
              clickRef = \<lparr>click_x = 0, click_y = 0, click_time = 0, click_id = ''a''\<rparr>,
              nextId = 0\<rparr>"
  have h1: "dragRef ?st = Some ?g" by simp
  have h2: "dragging ?g" by simp
  have h3: "findIndex (\<lambda>p. part_id p = pillId ?g) (rpills ?st) = Some 0" by simp
  have h4: "part_width (rpills ?st ! 0) \<le> clientWidth ?c" by simp
  have h5: "part_height (rpills ?st ! 0) \<le> clientHeight ?c" by simp
  have h6: "dragState ?fs = Some ?fg" by simp
  show ?thesis
    using drag_move_clamps_in_rounding_variant [OF h1 h2 h3 h4 h5 h6,
        of "\<lparr>clientX = 10, clientY = 590\<rparr>" None]
    by simp
qed

lemma clickPill_split_then_aside:
  assumes "part_id q \<noteq> ''drawing''"
      and "intersectsVertically sx q" and "intersectsHorizontally sy q"
      and "canSplit q Vertical sx" and "\<not> canSplit q Horizontal sy"
  shows "clickPill cont gen sx sy n q =
     ([movePartAside cont
         (q\<lparr>part_id := gen n, part_width := sx - part_x q,
             borderRadius := fst (splitBorderRadius q Vertical)\<rparr>) Horizontal sy,
       movePartAside cont
         (q\<lparr>part_id := gen (n + 1), part_x := sx,
             part_width := part_width q - (sx - part_x q),
             borderRadius := snd (splitBorderRadius q Vertical)\<rparr>) Horizontal sy],
      True, n + 2)"
proof -
  have cl: "\<not> canSplit (q\<lparr>part_id := a, part_width := b, borderRadius := c\<rparr>) Horizontal sy"
    for a b c using assms(5) by (simp add: canSplit_def)
  have cr: "\<not> canSplit (q\<lparr>part_id := a, part_x := d, part_width := b, borderRadius := c\<rparr>)
              Horizontal sy"
    for a b c d using assms(5) by (simp add: canSplit_def)
  show ?thesis
    using assms(1-3)
    by (simp add: clickPill_def Let_def intersectsVertically_def intersectsHorizontally_def
        splitPillPart_cases assms(4) cl cr)
qed


lemma movePartAside_Vertical_x:
  assumes "part_x q < s" and "s < part_x q + part_width q"
  shows "part_x (movePartAside cont q Vertical s) =
           (if part_x q + part_width q / 2 < s then max 0 (s - part_width q)
            else min s ((case cont of None \<Rightarrow> 1000 | Some c \<Rightarrow> clientWidth c)
                        - part_width q))"
  using assms by (simp add: movePartAside_def Let_def min_def)


section \<open>Shapes crossed on both axes with one axis splittable\<close>






section \<open>Moving aside a shape that cannot be split\<close>




section \<open>Facts about the rounding of doubles\<close>

lemma roundTiesToEven_of_int: "roundTiesToEven (of_int m) = m"
  by (simp add: roundTiesToEven_def)

lemma ulpExponent_binade:
  assumes "2 powi k \<le> \<bar>x\<bar>" and "\<bar>x\<bar> < 2 powi (k + 1)" and "- 1022 \<le> k"
  shows "ulpExponent x = k - 52"
proof -
  have pos: "0 < \<bar>x\<bar>"
    using assms(1) by (smt (verit) zero_less_power_int)
  have p1: "(2::real) powr (of_int k) = 2 powi k"
    by (simp add: powr_real_of_int')
  have p2: "(2::real) powr (of_int k + 1) = 2 powi (k + 1)"
    using powr_real_of_int' [of 2 "k + 1"] by simp
  have "\<lfloor>log 2 \<bar>x\<bar>\<rfloor> = k"
    using assms(1,2) pos by (simp add: floor_log_eq_powr_iff p1 p2)
  then show ?thesis
    using assms(3) by (simp add: ulpExponent_def)
qed

lemma fl_binade:
  assumes "2 powi k \<le> \<bar>x\<bar>" and "\<bar>x\<bar> < 2 powi (k + 1)" and "- 1022 \<le> k"
  shows "fl x = of_int (roundTiesToEven (x / 2 powi (k - 52))) * 2 powi (k - 52)"
proof -
  have "x \<noteq> 0"
    using assms(1) by (smt (verit) zero_less_power_int)
  then show ?thesis
    by (simp add: fl_def ulpExponent_binade [OF assms])
qed

lemma binade_exists:
  assumes "x \<noteq> 0"
  shows "2 powi \<lfloor>log 2 \<bar>x\<bar>\<rfloor> \<le> \<bar>x\<bar> \<and> \<bar>x\<bar> < 2 powi (\<lfloor>log 2 \<bar>x\<bar>\<rfloor> + 1)"
proof -
  have pos: "0 < \<bar>x\<bar>" using assms by simp
  have p1: "(2::real) powr (of_int k) = 2 powi k" for k
    by (simp add: powr_real_of_int')
  have p2: "(2::real) powr (of_int k + 1) = 2 powi (k + 1)" for k
    using powr_real_of_int' [of 2 "k + 1"] by simp
  have "2 powr (of_int \<lfloor>log 2 \<bar>x\<bar>\<rfloor>) \<le> \<bar>x\<bar>
        \<and> \<bar>x\<bar> < 2 powr (of_int \<lfloor>log 2 \<bar>x\<bar>\<rfloor> + 1)"
    using floor_log_eq_powr_iff [OF pos, of 2 "\<lfloor>log 2 \<bar>x\<bar>\<rfloor>"] by simp
  then show ?thesis
    by (simp only: p1 p2)
qed

lemma fl_of_int:
  assumes "x \<in> \<int>" and "\<bar>x\<bar> < 2 ^ 53"
  shows "fl x = x"
proof (cases "x = 0")
  case True
  then show ?thesis by (simp add: fl_def)
next
  case False
  obtain m where m: "x = of_int m" using assms(1) by (auto elim: Ints_cases)
  define k where "k = \<lfloor>log 2 \<bar>x\<bar>\<rfloor>"
  have b: "2 powi k \<le> \<bar>x\<bar>" "\<bar>x\<bar> < 2 powi (k + 1)"
    using binade_exists [OF False] by (simp_all add: k_def)
  have one: "1 \<le> \<bar>x\<bar>"
    using False m by (simp add: m) 
  have k0: "0 \<le> k"
  proof (rule ccontr)
    assume "\<not> 0 \<le> k"
    then have "k + 1 \<le> 0" by simp
    then have "(2::real) powi (k + 1) \<le> 2 powi 0"
      by (intro power_int_increasing) simp_all
    with b(2) one show False by simp
  qed
  have k52: "k \<le> 52"
  proof (rule ccontr)
    assume "\<not> k \<le> 52"
    then have "53 \<le> k" by simp
    then have "(2::real) powi 53 \<le> 2 powi k"
      by (intro power_int_increasing) simp_all
    with b(1) assms(2) show False by simp
  qed
  define j where "j = nat (52 - k)"
  have kj: "k - 52 = - int j" using k52 by (simp add: j_def)
  have pw: "(2::real) powi (k - 52) = 1 / 2 ^ j"
    unfolding kj by (simp add: power_int_minus field_simps)
  have q: "x / 2 powi (k - 52) = of_int (m * 2 ^ j)"
    by (simp add: pw m)
  have "fl x = of_int (roundTiesToEven (x / 2 powi (k - 52))) * 2 powi (k - 52)"
    using fl_binade [OF b] k0 by simp
  also have "\<dots> = of_int (m * 2 ^ j) * 2 powi (k - 52)"
    by (simp only: q roundTiesToEven_of_int)
  also have "\<dots> = of_int (m * 2 ^ j) * (1 / 2 ^ j)"
    by (simp only: pw)
  also have "\<dots> = x"
    by (simp add: m)
  finally show ?thesis .
qed

lemma fl_numeral: "numeral w < (2::real) ^ 53 \<Longrightarrow> fl (numeral w) = numeral w"
  by (rule fl_of_int) simp_all

lemma fl_example_left: "fl (20 + 1 / 2 ^ 48) = 20 + 1 / 2 ^ 48"
proof -
  let ?x = "20 + 1 / 2 ^ 48 :: real"
  have b: "2 powi 4 \<le> \<bar>?x\<bar>" "\<bar>?x\<bar> < 2 powi (4 + 1)" "- 1022 \<le> (4::int)"
    by simp_all
  have q: "?x / 2 powi (4 - 52) = of_int (20 * 2 ^ 48 + 1)"
    by (simp add: power_int_minus field_simps)
  have "fl ?x = of_int (roundTiesToEven (?x / 2 powi (4 - 52))) * 2 powi (4 - 52)"
    by (rule fl_binade [OF b])
  also have "\<dots> = of_int (20 * 2 ^ 48 + 1) * 2 powi (4 - 52)"
    by (simp only: q roundTiesToEven_of_int)
  also have "\<dots> = ?x"
    by (simp add: power_int_minus field_simps)
  finally show ?thesis .
qed

lemma fl_example_right: "fl (100 - (20 + 1 / 2 ^ 48)) = 80"
proof -
  let ?x = "100 - (20 + 1 / 2 ^ 48) :: real"
  have b: "2 powi 6 \<le> \<bar>?x\<bar>" "\<bar>?x\<bar> < 2 powi (6 + 1)" "- 1022 \<le> (6::int)"
    by simp_all
  have q: "?x / 2 powi (6 - 52) = of_int (80 * 2 ^ 46 - 1) + 3 / 4"
    by (simp add: power_int_minus field_simps)
  have fl: "\<lfloor>of_int (80 * 2 ^ 46 - 1) + 3 / 4 :: real\<rfloor> = 80 * 2 ^ 46 - 1"
    by (rule floor_unique) simp_all
  have r: "roundTiesToEven (of_int (80 * 2 ^ 46 - 1) + 3 / 4) = 80 * 2 ^ 46"
    unfolding roundTiesToEven_def fl Let_def by simp
  have "fl ?x = of_int (roundTiesToEven (?x / 2 powi (6 - 52))) * 2 powi (6 - 52)"
    by (rule fl_binade [OF b])
  also have "\<dots> = of_int (80 * 2 ^ 46) * 2 powi (6 - 52)"
    by (simp only: q r)
  also have "\<dots> = 80"
    by (simp add: power_int_minus field_simps)
  finally show ?thesis .
qed

lemma fl_exact:
  assumes "exactCoordinate a" and "exactCoordinate b"
  shows "fl (a + b) = a + b" and "fl (a - b) = a - b" and "fl a = a"
proof -
  have i: "a \<in> \<int>" "b \<in> \<int>" and ba: "\<bar>a\<bar> \<le> 2 ^ 50" and bb: "\<bar>b\<bar> \<le> 2 ^ 50"
    using assms by (simp_all add: exactCoordinate_def)
  have "\<bar>a + b\<bar> < 2 ^ 53" "\<bar>a - b\<bar> < 2 ^ 53" "\<bar>a\<bar> < 2 ^ 53"
    using ba bb by simp_all
  then show "fl (a + b) = a + b" and "fl (a - b) = a - b" and "fl a = a"
    using i by (simp_all add: fl_of_int)
qed

lemma fl_exact3:
  assumes "exactCoordinate a" and "exactCoordinate b" and "exactCoordinate c"
  shows "fl (a + b - c) = a + b - c" and "fl (a - (b - c)) = a - (b - c)"
proof -
  have i: "a \<in> \<int>" "b \<in> \<int>" "c \<in> \<int>"
    and ba: "\<bar>a\<bar> \<le> 2 ^ 50" and bb: "\<bar>b\<bar> \<le> 2 ^ 50" and bc: "\<bar>c\<bar> \<le> 2 ^ 50"
    using assms by (simp_all add: exactCoordinate_def)
  have "\<bar>a + b - c\<bar> < 2 ^ 53" "\<bar>a - (b - c)\<bar> < 2 ^ 53"
    using ba bb bc by simp_all
  then show "fl (a + b - c) = a + b - c" and "fl (a - (b - c)) = a - (b - c)"
    using i by (simp_all add: fl_of_int)
qed

lemma exactCoordinate_numeral: "numeral w \<le> (2::real) ^ 50 \<Longrightarrow> exactCoordinate (numeral w)"
  by (simp add: exactCoordinate_def)

lemma splitPill_double_quadrant_exact:
  assumes "exactCoordinate (pill_x p)" and "exactCoordinate (pill_y p)"
      and "exactCoordinate (pill_w p)" and "exactCoordinate (pill_h p)"
      and "exactCoordinate sx" and "exactCoordinate sy"
      and "withinX sx p" and "withinY sy p" and "splittableX sx p" and "splittableY sy p"
  shows "splitPill_double gen sx sy n p = splitPill gen sx sy n p"
proof -
  note e = fl_exact(1) [OF assms(1) assms(3)] fl_exact(1) [OF assms(2) assms(4)]
    fl_exact(2) [OF assms(5) assms(1)] fl_exact(2) [OF assms(6) assms(2)]
    fl_exact3(1) [OF assms(1) assms(3) assms(5)] fl_exact3(1) [OF assms(2) assms(4) assms(6)]
  show ?thesis
    using assms(7-10)
    by (simp add: splitPill_double_def splitPill_def e Let_def withinX_def withinY_def
        splittableX_def splittableY_def)
qed

lemma splitPillPart_double_exact:
  shows "exactCoordinate (part_x q) \<Longrightarrow> exactCoordinate (part_width q) \<Longrightarrow>
         exactCoordinate s \<Longrightarrow>
         splitPillPart_double gen n q Vertical s = splitPillPart gen n q Vertical s"
    and "exactCoordinate (part_y q) \<Longrightarrow> exactCoordinate (part_height q) \<Longrightarrow>
         exactCoordinate s \<Longrightarrow>
         splitPillPart_double gen n q Horizontal s = splitPillPart gen n q Horizontal s"
proof -
  have m: "exactCoordinate MIN_PART_SIZE"
    by (simp add: MIN_PART_SIZE_def exactCoordinate_numeral)
  have m2: "fl (2 * MIN_PART_SIZE) = 2 * MIN_PART_SIZE"
    by (simp add: MIN_PART_SIZE_def fl_numeral)
  show "splitPillPart_double gen n q Vertical s = splitPillPart gen n q Vertical s"
    if "exactCoordinate (part_x q)" "exactCoordinate (part_width q)" "exactCoordinate s"
    using fl_exact(1) [OF that(1) m] fl_exact(1) [OF that(1,2)]
      fl_exact3(1) [OF that(1,2) m] fl_exact(2) [OF that(3,1)] fl_exact3(2) [OF that(2,3,1)] m2
    by (simp add: splitPillPart_double_def splitPillPart_def Let_def)
  show "splitPillPart_double gen n q Horizontal s = splitPillPart gen n q Horizontal s"
    if "exactCoordinate (part_y q)" "exactCoordinate (part_height q)" "exactCoordinate s"
    using fl_exact(1) [OF that(1) m] fl_exact(1) [OF that(1,2)]
      fl_exact3(1) [OF that(1,2) m] fl_exact(2) [OF that(3,1)] fl_exact3(2) [OF that(2,3,1)] m2
    by (simp add: splitPillPart_double_def splitPillPart_def Let_def)
qed

lemma clickPill_double_quadrant_exact:
  assumes "exactCoordinate (part_x q)" and "exactCoordinate (part_y q)"
      and "exactCoordinate (part_width q)" and "exactCoordinate (part_height q)"
      and "exactCoordinate sx" and "exactCoordinate sy"
      and "part_id q \<noteq> ''drawing''"
      and "canSplit q Vertical sx" and "canSplit q Horizontal sy"
  shows "clickPill_double cont gen sx sy n q = clickPill cont gen sx sy n q"
proof -
  have iv: "part_x q < sx \<and> part_x q + part_width q > sx"
    using assms(8) by (simp add: canSplit_def MIN_PART_SIZE_def)
  have ih: "part_y q < sy \<and> part_y q + part_height q > sy"
    using assms(9) by (simp add: canSplit_def MIN_PART_SIZE_def)
  have v: "splitPillPart_double gen n q Vertical sx = splitPillPart gen n q Vertical sx"
    by (rule splitPillPart_double_exact(1) [OF assms(1,3,5)])
  have hl: "splitPillPart_double gen k (q\<lparr>part_id := a, part_width := b, borderRadius := c\<rparr>)
              Horizontal sy
            = splitPillPart gen k (q\<lparr>part_id := a, part_width := b, borderRadius := c\<rparr>)
              Horizontal sy" for k a b c
    using assms(2,4,6) by (intro splitPillPart_double_exact(2)) simp_all
  have hr: "splitPillPart_double gen k
              (q\<lparr>part_id := a, part_x := d, part_width := b, borderRadius := c\<rparr>) Horizontal sy
            = splitPillPart gen k
              (q\<lparr>part_id := a, part_x := d, part_width := b, borderRadius := c\<rparr>) Horizontal sy"
    for k a b c d
    using assms(2,4,6) by (intro splitPillPart_double_exact(2)) simp_all
  have cl: "canSplit (q\<lparr>part_id := a, part_width := b, borderRadius := c\<rparr>) Horizontal sy"
    for a b c using assms(9) by (simp add: canSplit_def)
  have cr: "canSplit (q\<lparr>part_id := a, part_x := d, part_width := b, borderRadius := c\<rparr>)
              Horizontal sy"
    for a b c d using assms(9) by (simp add: canSplit_def)
  show ?thesis
    using assms(7) iv ih
    by (simp add: clickPill_double_def clickPill_def Let_def v hl hr
        fl_exact(1) [OF assms(1,3)] fl_exact(1) [OF assms(2,4)]
        splitPillPart_cases assms(8) cl cr)
qed

lemma splitPill_double_example:
  "splitPill_double sampleIds (20 + 1 / 2 ^ 48) 50 0
       \<lparr>pill_id = ''a'', pill_x = 0, pill_y = 0, pill_w = 100, pill_h = 100,
        pill_color = ''#f87171''\<rparr>
     = ([\<lparr>pill_id = ''id'', pill_x = 0, pill_y = 0, pill_w = 20 + 1 / 2 ^ 48, pill_h = 50,
          pill_color = ''#f87171''\<rparr>,
         \<lparr>pill_id = ''idx'', pill_x = 20 + 1 / 2 ^ 48, pill_y = 0, pill_w = 80, pill_h = 50,
          pill_color = ''#f87171''\<rparr>,
         \<lparr>pill_id = ''idxx'', pill_x = 0, pill_y = 50, pill_w = 20 + 1 / 2 ^ 48, pill_h = 50,
          pill_color = ''#f87171''\<rparr>,
         \<lparr>pill_id = ''idxxx'', pill_x = 20 + 1 / 2 ^ 48, pill_y = 50, pill_w = 80,
          pill_h = 50, pill_color = ''#f87171''\<rparr>], 4)"
proof -
  define s :: real where "s = 20 + 1 / 2 ^ 48"
  have f1: "fl s = s" unfolding s_def by (rule fl_example_left)
  have f2: "fl (100 - s) = 80" unfolding s_def by (rule fl_example_right)
  have r: "0 < s" "s < 100" "20 \<le> s" by (simp_all add: s_def)
  have "splitPill_double sampleIds s 50 0
       \<lparr>pill_id = ''a'', pill_x = 0, pill_y = 0, pill_w = 100, pill_h = 100,
        pill_color = ''#f87171''\<rparr>
     = ([\<lparr>pill_id = ''id'', pill_x = 0, pill_y = 0, pill_w = s, pill_h = 50,
          pill_color = ''#f87171''\<rparr>,
         \<lparr>pill_id = ''idx'', pill_x = s, pill_y = 0, pill_w = 80, pill_h = 50,
          pill_color = ''#f87171''\<rparr>,
         \<lparr>pill_id = ''idxx'', pill_x = 0, pill_y = 50, pill_w = s, pill_h = 50,
          pill_color = ''#f87171''\<rparr>,
         \<lparr>pill_id = ''idxxx'', pill_x = s, pill_y = 50, pill_w = 80,
          pill_h = 50, pill_color = ''#f87171''\<rparr>], 4)"
    using r
    by (simp add: splitPill_double_def fl_numeral f1 f2 MIN_SPLIT_SIZE_def sampleIds_def
        Let_def eval_nat_numeral)
  then show ?thesis unfolding s_def .
qed

section \<open>Area and the quadrant split\<close>

text \<open>
  Claim C7, as stated: whenever the split point is strictly inside a shape on both axes and
  both axes are splittable, the areas of the four children add up to the parent's area
  exactly. The children's extents are computed in doubles, and \<^verbatim>\<open>splitX - pill.x\<close> and
  \<^verbatim>\<open>pill.x + pill.w - splitX\<close> each round on their own. The pill
  \<open>{x:0, y:0, w:100, h:100}\<close> split at \<open>(20 + 1 / 2 ^ 48, 50)\<close> gets children
  \<open>20 + 1 / 2 ^ 48\<close> and \<open>80\<close> wide (\<open>80 - 1 / 2 ^ 48\<close> is not a double and rounds
  to \<open>80\<close>),
  all \<open>50\<close> high; their areas add up to \<open>10000 + 25 / 2 ^ 46\<close>, not to \<open>10000\<close>.
\<close>

theorem quadrant_areas_differ_after_rounding:
  "map (\<lambda>r. (pill_w r, pill_h r))
     (fst (splitPill_double sampleIds (20 + 1 / 2 ^ 48) 50 0
        \<lparr>pill_id = ''a'', pill_x = 0, pill_y = 0, pill_w = 100, pill_h = 100,
         pill_color = ''#f87171''\<rparr>))
     = [(20 + 1 / 2 ^ 48, 50), (80, 50), (20 + 1 / 2 ^ 48, 50), (80, 50)]
   \<and> sum_list (map pillArea
        (fst (splitPill_double sampleIds (20 + 1 / 2 ^ 48) 50 0
           \<lparr>pill_id = ''a'', pill_x = 0, pill_y = 0, pill_w = 100, pill_h = 100,
            pill_color = ''#f87171''\<rparr>)))
     = 10000 + 25 / 2 ^ 46
   \<and> pillArea \<lparr>pill_id = ''a'', pill_x = 0, pill_y = 0, pill_w = 100, pill_h = 100,
                 pill_color = ''#f87171''\<rparr> = 10000
   \<and> sum_list (map pillArea
        (fst (splitPill_double sampleIds (20 + 1 / 2 ^ 48) 50 0
           \<lparr>pill_id = ''a'', pill_x = 0, pill_y = 0, pill_w = 100, pill_h = 100,
            pill_color = ''#f87171''\<rparr>)))
     \<noteq> pillArea \<lparr>pill_id = ''a'', pill_x = 0, pill_y = 0, pill_w = 100, pill_h = 100,
                   pill_color = ''#f87171''\<rparr>"
  unfolding splitPill_double_example by (simp add: pillArea_def)

text \<open>
  Claim C7, amended. When the split point is strictly inside a shape on both axes and all
  four child extents reach the minimum splittable size (in the corner-rounding variant:
  exceed it), the shape is replaced by four children, and their areas add up to the
  parent's area exactly provided the shape's position and size and the split point are
  whole numbers of pixels (of magnitude \<open>2 ^ 50\<close> at most), on which the subtractions of
  the code do not round. On fractional coordinates the extents are rounded and the sum
  can differ from the parent's area.
\<close>

theorem quadrant_split_conserves_area:
  fixes p :: Pill and q :: PillPart
  assumes "exactCoordinate sx" and "exactCoordinate sy"
      and "exactCoordinate (pill_x p)" and "exactCoordinate (pill_y p)"
      and "exactCoordinate (pill_w p)" and "exactCoordinate (pill_h p)"
      and "withinX sx p" and "withinY sy p" and "splittableX sx p" and "splittableY sy p"
      and "exactCoordinate (part_x q)" and "exactCoordinate (part_y q)"
      and "exactCoordinate (part_width q)" and "exactCoordinate (part_height q)"
      and "part_id q \<noteq> ''drawing''"
      and "MIN_PART_SIZE < sx - part_x q" and "MIN_PART_SIZE < part_x q + part_width q - sx"
      and "MIN_PART_SIZE < sy - part_y q" and "MIN_PART_SIZE < part_y q + part_height q - sy"
  shows "length (fst (splitPill_double gen sx sy n p)) = 4
     \<and> sum_list (map pillArea (fst (splitPill_double gen sx sy n p))) = pillArea p
     \<and> length (fst (clickPill_double cont gen sx sy n q)) = 4
     \<and> sum_list (map partArea (fst (clickPill_double cont gen sx sy n q))) = partArea q"
proof -
  have d: "splitPill_double gen sx sy n p = splitPill gen sx sy n p"
    by (rule splitPill_double_quadrant_exact [OF assms(3,4,5,6,1,2,7,8,9,10)])
  have four: "length (fst (splitPill gen sx sy n p)) = 4"
    using assms(7-10) by (simp add: splitPill_cases)
  have "sum_list (map pillArea (fst (splitPill gen sx sy n p))) =
          (sx - pill_x p) * (sy - pill_y p)
          + (pill_x p + pill_w p - sx) * (sy - pill_y p)
          + (sx - pill_x p) * (pill_y p + pill_h p - sy)
          + (pill_x p + pill_w p - sx) * (pill_y p + pill_h p - sy)"
    using assms(7-10) by (simp add: splitPill_cases pillArea_def)
  also have "\<dots> = pill_w p * pill_h p"
    by (simp add: algebra_simps)
  finally have area: "sum_list (map pillArea (fst (splitPill gen sx sy n p))) = pillArea p"
    by (simp add: pillArea_def)
  have cv: "canSplit q Vertical sx"
    using assms(16,17) by (simp add: canSplit_iff_strict)
  have ch: "canSplit q Horizontal sy"
    using assms(18,19) by (simp add: canSplit_iff_strict)
  have e: "clickPill_double cont gen sx sy n q = clickPill cont gen sx sy n q"
    by (rule clickPill_double_quadrant_exact [OF assms(11,12,13,14,1,2,15) cv ch])
  have four': "length (fst (clickPill cont gen sx sy n q)) = 4"
    using clickPill_quadrant [OF assms(15) cv ch] by simp
  have area': "sum_list (map partArea (fst (clickPill cont gen sx sy n q))) = partArea q"
    by (rule clickPill_area)
  from four area four' area' show ?thesis
    unfolding d e by simp
qed

theorem quadrant_split_conserves_area_witness:
  "sum_list (map pillArea (fst (splitPill_double sampleIds 30 70 0
       \<lparr>pill_id = ''a'', pill_x = 0, pill_y = 0, pill_w = 100, pill_h = 100,
        pill_color = ''#f87171''\<rparr>))) = 10000
   \<and> length (fst (splitPill_double sampleIds 30 70 0
       \<lparr>pill_id = ''a'', pill_x = 0, pill_y = 0, pill_w = 100, pill_h = 100,
        pill_color = ''#f87171''\<rparr>)) = 4
   \<and> sum_list (map partArea (fst (clickPill_double None sampleIds 30 70 0
       \<lparr>part_id = ''b'', part_x = 0, part_y = 0, part_width = 100, part_height = 100,
        part_color = ''hsl(10, 70%, 80%)'', borderRadius = allRounded,
        parentId = None\<rparr>))) = 10000
   \<and> length (fst (clickPill_double None sampleIds 30 70 0
       \<lparr>part_id = ''b'', part_x = 0, part_y = 0, part_width = 100, part_height = 100,
        part_color = ''hsl(10, 70%, 80%)'', borderRadius = allRounded,
        parentId = None\<rparr>)) = 4"
proof -
  let ?p = "\<lparr>pill_id = ''a'', pill_x = 0, pill_y = 0, pill_w = 100, pill_h = 100,
        pill_color = ''#f87171''\<rparr>"
  let ?q = "\<lparr>part_id = ''b'', part_x = 0, part_y = 0, part_width = 100, part_height = 100,
        part_color = ''hsl(10, 70%, 80%)'', borderRadius = allRounded, parentId = None\<rparr>"
  have s1: "exactCoordinate 30" and s2: "exactCoordinate 70"
    by (simp_all add: exactCoordinate_def)
  have p1: "exactCoordinate (pill_x ?p)" and p2: "exactCoordinate (pill_y ?p)"
    and p3: "exactCoordinate (pill_w ?p)" and p4: "exactCoordinate (pill_h ?p)"
    by (simp_all add: exactCoordinate_def)
  have h1: "withinX 30 ?p" by (simp add: withinX_def)
  have h2: "withinY 70 ?p" by (simp add: withinY_def)
  have h3: "splittableX 30 ?p" by (simp add: splittableX_def MIN_SPLIT_SIZE_def)
  have h4: "splittableY 70 ?p" by (simp add: splittableY_def MIN_SPLIT_SIZE_def)
  have q1: "exactCoordinate (part_x ?q)" and q2: "exactCoordinate (part_y ?q)"
    and q3: "exactCoordinate (part_width ?q)" and q4: "exactCoordinate (part_height ?q)"
    by (simp_all add: exactCoordinate_def)
  have g1: "part_id ?q \<noteq> ''drawing''" by simp
  have g4: "MIN_PART_SIZE < 30 - part_x ?q" by (simp add: MIN_PART_SIZE_def)
  have g5: "MIN_PART_SIZE < part_x ?q + part_width ?q - 30" by (simp add: MIN_PART_SIZE_def)
  have g6: "MIN_PART_SIZE < 70 - part_y ?q" by (simp add: MIN_PART_SIZE_def)
  have g7: "MIN_PART_SIZE < part_y ?q + part_height ?q - 70" by (simp add: MIN_PART_SIZE_def)
  show ?thesis
    using quadrant_split_conserves_area
      [OF s1 s2 p1 p2 p3 p4 h1 h2 h3 h4 q1 q2 q3 q4 g1 g4 g5 g6 g7, of sampleIds 0 None]
    by (simp add: pillArea_def partArea_def)
qed

lemma clickPill_radii:
  assumes "part_id p \<noteq> ''drawing''"
  shows "map borderRadius (fst (clickPill cont gen sx sy n p)) =
     (if canSplit p Vertical sx then
        (if canSplit p Horizontal sy then
           [\<lparr>topLeft = topLeft (borderRadius p), topRight = False,
             bottomLeft = False, bottomRight = False\<rparr>,
            \<lparr>topLeft = False, topRight = False,
             bottomLeft = bottomLeft (borderRadius p), bottomRight = False\<rparr>,
            \<lparr>topLeft = False, topRight = topRight (borderRadius p),
             bottomLeft = False, bottomRight = False\<rparr>,
            \<lparr>topLeft = False, topRight = False, bottomLeft = False,
             bottomRight = bottomRight (borderRadius p)\<rparr>]
         else
           [\<lparr>topLeft = topLeft (borderRadius p), topRight = False,
             bottomLeft = bottomLeft (borderRadius p), bottomRight = False\<rparr>,
            \<lparr>topLeft = False, topRight = topRight (borderRadius p),
             bottomLeft = False, bottomRight = bottomRight (borderRadius p)\<rparr>])
      else if canSplit p Horizontal sy \<and> \<not> intersectsVertically sx p then
        [\<lparr>topLeft = topLeft (borderRadius p), topRight = topRight (borderRadius p),
          bottomLeft = False, bottomRight = False\<rparr>,
         \<lparr>topLeft = False, topRight = False,
          bottomLeft = bottomLeft (borderRadius p),
          bottomRight = bottomRight (borderRadius p)\<rparr>]
      else [borderRadius p])"
proof (cases "canSplit p Vertical sx")
  case v: True
  then have iv: "intersectsVertically sx p"
    by (simp add: canSplit_def intersectsVertically_def MIN_PART_SIZE_def)
  show ?thesis
  proof (cases "canSplit p Horizontal sy")
    case True
    show ?thesis
      using v True by (simp add: clickPill_quadrant [OF assms v True])
  next
    case h: False
    show ?thesis
    proof (cases "intersectsHorizontally sy p")
      case True
      show ?thesis
        using v h
        by (simp add: clickPill_split_then_aside [OF assms iv True v h] movePartAside_keeps
            splitBorderRadius_def)
    next
      case False
      then show ?thesis
        using v h iv assms
        by (auto simp: clickPill_def Let_def intersectsVertically_def
            intersectsHorizontally_def splitPillPart_cases splitBorderRadius_def)
    qed
  qed
next
  case nv: False
  show ?thesis
  proof (cases "canSplit p Horizontal sy")
    case h: True
    then have ih: "intersectsHorizontally sy p"
      by (simp add: canSplit_def intersectsHorizontally_def MIN_PART_SIZE_def)
    show ?thesis
      using nv h ih assms
      by (auto simp: clickPill_def Let_def intersectsVertically_def
          intersectsHorizontally_def splitPillPart_cases splitBorderRadius_def
          movePartAside_keeps)
  next
    case h: False
    show ?thesis
      using nv h assms
      by (auto simp: clickPill_def Let_def intersectsVertically_def
          intersectsHorizontally_def splitPillPart_cases movePartAside_keeps)
  qed
qed

section \<open>Corner rounding of the children\<close>

text \<open>
  Claim C9. In the corner-rounding variant, whenever \<^verbatim>\<open>splitPillPart\<close> cuts a shape,
  each child keeps the parent's rounding flags on the corners that were corners of the
  parent and is square on the corners the cut creates: a vertical cut gives the left
  child (at the parent's \<open>x\<close>) the parent's top-left and bottom-left flags only and the
  right child (at the split line) the parent's top-right and bottom-right flags only; a
  horizontal cut gives the top child the top-left and top-right flags only and the
  bottom child the bottom-left and bottom-right flags only. Each cut is taken on its own:
  a vertical cut of a pill too low to be cut horizontally is covered, and conversely.
  For every click of \<^verbatim>\<open>onSingleClick\<close> the flags of the pieces of a shape are those
  of one cut, of the two cuts composed (each quadrant keeps the flag of the one parent
  corner it holds), or the parent's own when the shape is not cut; moving a piece aside
  never changes its flags.
\<close>

theorem split_children_inherit_outer_rounding:
  "(canSplit p Vertical sx \<longrightarrow>
      map (\<lambda>c. (part_x c, borderRadius c)) (fst (splitPillPart gen n p Vertical sx)) =
        [(part_x p,
          \<lparr>topLeft = topLeft (borderRadius p), topRight = False,
           bottomLeft = bottomLeft (borderRadius p), bottomRight = False\<rparr>),
         (sx,
          \<lparr>topLeft = False, topRight = topRight (borderRadius p),
           bottomLeft = False, bottomRight = bottomRight (borderRadius p)\<rparr>)])
   \<and> (canSplit p Horizontal sy \<longrightarrow>
      map (\<lambda>c. (part_y c, borderRadius c)) (fst (splitPillPart gen n p Horizontal sy)) =
        [(part_y p,
          \<lparr>topLeft = topLeft (borderRadius p), topRight = topRight (borderRadius p),
           bottomLeft = False, bottomRight = False\<rparr>),
         (sy,
          \<lparr>topLeft = False, topRight = False,
           bottomLeft = bottomLeft (borderRadius p),
           bottomRight = bottomRight (borderRadius p)\<rparr>)])
   \<and> (part_id p \<noteq> ''drawing'' \<and> canSplit p Vertical sx \<and> canSplit p Horizontal sy \<longrightarrow>
      map (\<lambda>c. (part_x c, part_y c, borderRadius c))
          (fst (clickPill cont gen sx sy n p)) =
           [(part_x p, part_y p,
             \<lparr>topLeft = topLeft (borderRadius p), topRight = False,
              bottomLeft = False, bottomRight = False\<rparr>),
            (part_x p, sy,
             \<lparr>topLeft = False, topRight = False,
              bottomLeft = bottomLeft (borderRadius p), bottomRight = False\<rparr>),
            (sx, part_y p,
             \<lparr>topLeft = False, topRight = topRight (borderRadius p),
              bottomLeft = False, bottomRight = False\<rparr>),
            (sx, sy,
             \<lparr>topLeft = False, topRight = False, bottomLeft = False,
              bottomRight = bottomRight (borderRadius p)\<rparr>)])
   \<and> (part_id p \<noteq> ''drawing'' \<longrightarrow>
      map borderRadius (fst (clickPill cont gen sx sy n p)) =
        (if canSplit p Vertical sx then
           (if canSplit p Horizontal sy then
              [\<lparr>topLeft = topLeft (borderRadius p), topRight = False,
                bottomLeft = False, bottomRight = False\<rparr>,
               \<lparr>topLeft = False, topRight = False,
                bottomLeft = bottomLeft (borderRadius p), bottomRight = False\<rparr>,
               \<lparr>topLeft = False, topRight = topRight (borderRadius p),
                bottomLeft = False, bottomRight = False\<rparr>,
               \<lparr>topLeft = False, topRight = False, bottomLeft = False,
                bottomRight = bottomRight (borderRadius p)\<rparr>]
            else
              [\<lparr>topLeft = topLeft (borderRadius p), topRight = False,
                bottomLeft = bottomLeft (borderRadius p), bottomRight = False\<rparr>,
               \<lparr>topLeft = False, topRight = topRight (borderRadius p),
                bottomLeft = False, bottomRight = bottomRight (borderRadius p)\<rparr>])
         else if canSplit p Horizontal sy \<and> \<not> intersectsVertically sx p then
           [\<lparr>topLeft = topLeft (borderRadius p), topRight = topRight (borderRadius p),
             bottomLeft = False, bottomRight = False\<rparr>,
            \<lparr>topLeft = False, topRight = False,
             bottomLeft = bottomLeft (borderRadius p),
             bottomRight = bottomRight (borderRadius p)\<rparr>]
         else [borderRadius p]))"
proof (intro conjI impI)
  assume "canSplit p Vertical sx"
  then show "map (\<lambda>c. (part_x c, borderRadius c)) (fst (splitPillPart gen n p Vertical sx)) =
        [(part_x p,
          \<lparr>topLeft = topLeft (borderRadius p), topRight = False,
           bottomLeft = bottomLeft (borderRadius p), bottomRight = False\<rparr>),
         (sx,
          \<lparr>topLeft = False, topRight = topRight (borderRadius p),
           bottomLeft = False, bottomRight = bottomRight (borderRadius p)\<rparr>)]"
    by (simp add: splitPillPart_cases splitBorderRadius_def)
next
  assume "canSplit p Horizontal sy"
  then show "map (\<lambda>c. (part_y c, borderRadius c)) (fst (splitPillPart gen n p Horizontal sy)) =
        [(part_y p,
          \<lparr>topLeft = topLeft (borderRadius p), topRight = topRight (borderRadius p),
           bottomLeft = False, bottomRight = False\<rparr>),
         (sy,
          \<lparr>topLeft = False, topRight = False,
           bottomLeft = bottomLeft (borderRadius p),
           bottomRight = bottomRight (borderRadius p)\<rparr>)]"
    by (simp add: splitPillPart_cases splitBorderRadius_def)
next
  assume a: "part_id p \<noteq> ''drawing'' \<and> canSplit p Vertical sx \<and> canSplit p Horizontal sy"
  show "map (\<lambda>c. (part_x c, part_y c, borderRadius c))
          (fst (clickPill cont gen sx sy n p)) =
           [(part_x p, part_y p,
             \<lparr>topLeft = topLeft (borderRadius p), topRight = False,
              bottomLeft = False, bottomRight = False\<rparr>),
            (part_x p, sy,
             \<lparr>topLeft = False, topRight = False,
              bottomLeft = bottomLeft (borderRadius p), bottomRight = False\<rparr>),
            (sx, part_y p,
             \<lparr>topLeft = False, topRight = topRight (borderRadius p),
              bottomLeft = False, bottomRight = False\<rparr>),
            (sx, sy,
             \<lparr>topLeft = False, topRight = False, bottomLeft = False,
              bottomRight = bottomRight (borderRadius p)\<rparr>)]"
    using a by (simp add: clickPill_quadrant)
next
  assume "part_id p \<noteq> ''drawing''"
  then show "map borderRadius (fst (clickPill cont gen sx sy n p)) =
        (if canSplit p Vertical sx then
           (if canSplit p Horizontal sy then
              [\<lparr>topLeft = topLeft (borderRadius p), topRight = False,
                bottomLeft = False, bottomRight = False\<rparr>,
               \<lparr>topLeft = False, topRight = False,
                bottomLeft = bottomLeft (borderRadius p), bottomRight = False\<rparr>,
               \<lparr>topLeft = False, topRight = topRight (borderRadius p),
                bottomLeft = False, bottomRight = False\<rparr>,
               \<lparr>topLeft = False, topRight = False, bottomLeft = False,
                bottomRight = bottomRight (borderRadius p)\<rparr>]
            else
              [\<lparr>topLeft = topLeft (borderRadius p), topRight = False,
                bottomLeft = bottomLeft (borderRadius p), bottomRight = False\<rparr>,
               \<lparr>topLeft = False, topRight = topRight (borderRadius p),
                bottomLeft = False, bottomRight = bottomRight (borderRadius p)\<rparr>])
         else if canSplit p Horizontal sy \<and> \<not> intersectsVertically sx p then
           [\<lparr>topLeft = topLeft (borderRadius p), topRight = topRight (borderRadius p),
             bottomLeft = False, bottomRight = False\<rparr>,
            \<lparr>topLeft = False, topRight = False,
             bottomLeft = bottomLeft (borderRadius p),
             bottomRight = bottomRight (borderRadius p)\<rparr>]
         else [borderRadius p])"
    by (rule clickPill_radii)
qed

text \<open>A pill 100 by 40, as high as a freshly drawn pill at the least, rounded on its two
  left corners only, is cut vertically at \<open>x = 30\<close> (it is too low to be cut
  horizontally); a pill 40 by 100 is cut horizontally at \<open>y = 70\<close>; a pill 100 by 100 is
  cut into quadrants at \<open>(30, 70)\<close>.\<close>

theorem split_children_inherit_outer_rounding_witness:
  "map borderRadius (fst (splitPillPart sampleIds 0
       \<lparr>part_id = ''b'', part_x = 0, part_y = 0, part_width = 100, part_height = 40,
        part_color = ''hsl(10, 70%, 80%)'',
        borderRadius = \<lparr>topLeft = True, topRight = False, bottomLeft = True,
                         bottomRight = False\<rparr>,
        parentId = None\<rparr> Vertical 30)) =
     [\<lparr>topLeft = True, topRight = False, bottomLeft = True, bottomRight = False\<rparr>,
      \<lparr>topLeft = False, topRight = False, bottomLeft = False, bottomRight = False\<rparr>]
   \<and> map borderRadius (fst (splitPillPart sampleIds 0
       \<lparr>part_id = ''c'', part_x = 0, part_y = 0, part_width = 40, part_height = 100,
        part_color = ''hsl(10, 70%, 80%)'',
        borderRadius = \<lparr>topLeft = True, topRight = False, bottomLeft = True,
                         bottomRight = False\<rparr>,
        parentId = None\<rparr> Horizontal 70)) =
     [\<lparr>topLeft = True, topRight = False, bottomLeft = False, bottomRight = False\<rparr>,
      \<lparr>topLeft = False, topRight = False, bottomLeft = True, bottomRight = False\<rparr>]
   \<and> map borderRadius (fst (clickPill None sampleIds 30 70 0
       \<lparr>part_id = ''d'', part_x = 0, part_y = 0, part_width = 100, part_height = 100,
        part_color = ''hsl(10, 70%, 80%)'',
        borderRadius = \<lparr>topLeft = True, topRight = False, bottomLeft = True,
                         bottomRight = False\<rparr>,
        parentId = None\<rparr>)) =
     [\<lparr>topLeft = True, topRight = False, bottomLeft = False, bottomRight = False\<rparr>,
      \<lparr>topLeft = False, topRight = False, bottomLeft = True, bottomRight = False\<rparr>,
      \<lparr>topLeft = False, topRight = False, bottomLeft = False, bottomRight = False\<rparr>,
      \<lparr>topLeft = False, topRight = False, bottomLeft = False, bottomRight = False\<rparr>]
   \<and> map borderRadius (fst (clickPill None sampleIds 30 20 0
       \<lparr>part_id = ''b'', part_x = 0, part_y = 0, part_width = 100, part_height = 40,
        part_color = ''hsl(10, 70%, 80%)'',
        borderRadius = \<lparr>topLeft = True, topRight = False, bottomLeft = True,
                         bottomRight = False\<rparr>,
        parentId = None\<rparr>)) =
     [\<lparr>topLeft = True, topRight = False, bottomLeft = True, bottomRight = False\<rparr>,
      \<lparr>topLeft = False, topRight = False, bottomLeft = False, bottomRight = False\<rparr>]"
proof -
  let ?r = "\<lparr>topLeft = True, topRight = False, bottomLeft = True, bottomRight = False\<rparr>"
  let ?b = "\<lparr>part_id = ''b'', part_x = 0, part_y = 0, part_width = 100, part_height = 40,
        part_color = ''hsl(10, 70%, 80%)'', borderRadius = ?r, parentId = None\<rparr>"
  let ?c = "\<lparr>part_id = ''c'', part_x = 0, part_y = 0, part_width = 40, part_height = 100,
        part_color = ''hsl(10, 70%, 80%)'', borderRadius = ?r, parentId = None\<rparr>"
  let ?d = "\<lparr>part_id = ''d'', part_x = 0, part_y = 0, part_width = 100, part_height = 100,
        part_color = ''hsl(10, 70%, 80%)'', borderRadius = ?r, parentId = None\<rparr>"
  have bv: "canSplit ?b Vertical 30" and bh: "\<not> canSplit ?b Horizontal 20"
    and ch: "canSplit ?c Horizontal 70"
    and dv: "canSplit ?d Vertical 30" and dh: "canSplit ?d Horizontal 70"
    by (simp_all add: canSplit_def MIN_PART_SIZE_def)
  have nb: "part_id ?b \<noteq> ''drawing''" and nd: "part_id ?d \<noteq> ''drawing''"
    by simp_all
  have m: "map f xs = ys \<Longrightarrow> map (g \<circ> f) xs = map g ys" for f :: "PillPart \<Rightarrow> 'b"
    and g :: "'b \<Rightarrow> BorderRadius" and xs ys
    by auto
  note tb = split_children_inherit_outer_rounding [of ?b 30 sampleIds 0 20 None]
  note tc = split_children_inherit_outer_rounding [of ?c 30 sampleIds 0 70 None]
  note td = split_children_inherit_outer_rounding [of ?d 30 sampleIds 0 70 None]
  from tb bv have 1: "map (\<lambda>c. (part_x c, borderRadius c))
        (fst (splitPillPart sampleIds 0 ?b Vertical 30)) =
        [(part_x ?b,
          \<lparr>topLeft = topLeft (borderRadius ?b), topRight = False,
           bottomLeft = bottomLeft (borderRadius ?b), bottomRight = False\<rparr>),
         (30,
          \<lparr>topLeft = False, topRight = topRight (borderRadius ?b),
           bottomLeft = False, bottomRight = bottomRight (borderRadius ?b)\<rparr>)]"
    by blast
  from tc ch have 2: "map (\<lambda>c. (part_y c, borderRadius c))
        (fst (splitPillPart sampleIds 0 ?c Horizontal 70)) =
        [(part_y ?c,
          \<lparr>topLeft = topLeft (borderRadius ?c), topRight = topRight (borderRadius ?c),
           bottomLeft = False, bottomRight = False\<rparr>),
         (70,
          \<lparr>topLeft = False, topRight = False,
           bottomLeft = bottomLeft (borderRadius ?c),
           bottomRight = bottomRight (borderRadius ?c)\<rparr>)]"
    by blast
  from td nd dv dh have 3: "map (\<lambda>c. (part_x c, part_y c, borderRadius c))
          (fst (clickPill None sampleIds 30 70 0 ?d)) =
           [(part_x ?d, part_y ?d,
             \<lparr>topLeft = topLeft (borderRadius ?d), topRight = False,
              bottomLeft = False, bottomRight = False\<rparr>),
            (part_x ?d, 70,
             \<lparr>topLeft = False, topRight = False,
              bottomLeft = bottomLeft (borderRadius ?d), bottomRight = False\<rparr>),
            (30, part_y ?d,
             \<lparr>topLeft = False, topRight = topRight (borderRadius ?d),
              bottomLeft = False, bottomRight = False\<rparr>),
            (30, 70,
             \<lparr>topLeft = False, topRight = False, bottomLeft = False,
              bottomRight = bottomRight (borderRadius ?d)\<rparr>)]"
    by blast
  from tb nb bv bh have 4: "map borderRadius (fst (clickPill None sampleIds 30 20 0 ?b)) =
           [\<lparr>topLeft = topLeft (borderRadius ?b), topRight = False,
             bottomLeft = bottomLeft (borderRadius ?b), bottomRight = False\<rparr>,
            \<lparr>topLeft = False, topRight = topRight (borderRadius ?b),
             bottomLeft = False, bottomRight = bottomRight (borderRadius ?b)\<rparr>]"
    by (simp only: if_True if_False simp_thms)
  show ?thesis
    using m [OF 1, of snd] m [OF 2, of snd] m [OF 3, of "snd \<circ> snd"] 4
    by (simp add: comp_def)
qed

end
